theory Spec2Isabelle
  imports Main
begin

section \<open>Clinic-System-Server: dual-token authentication and role authorization\<close>

text \<open>
  A shallow embedding of the authentication core of the server, function by function:
  \<^item> \<open>createError\<close> (src/util/createError.js), \<open>sendSuccess\<close> (src/util/sendSucess.js)
    and \<open>errorHandler\<close> (src/middlewares/errorHandler.js);
  \<^item> \<open>generateAccessToken\<close>, \<open>generateRefreshToken\<close> (src/util/token.js) and
    \<open>registerSchema\<close> (util/validations/RegistrationValidation.js, the second document of
    src/util/token.js);
  \<^item> \<open>verifyToken\<close> and \<open>authorization\<close> (middlewares/verifyToken.js and
    middlewares/authorization.js, the second and third document of src/unnamed/part_006);
  \<^item> \<open>UserSchema\<close> (models/User.js, the second document of src/models/investigation.js);
  \<^item> \<open>Register\<close>, \<open>login\<close>, \<open>refreshToken\<close> and \<open>googleCallback\<close> of the routed
    controller (controllers/authController.js, the second document of
    src/controllers/patientController.js).
  An older copy of the controller (src/controllers/authController.js) and an older
  verifier (\<open>verifyAccessToken\<close>, the first document of src/unnamed/part_006) are not
  routed and are not modelled.

  The packages the code calls (jsonwebtoken, bcryptjs, the e-mail check of joi, the
  Google token exchange) are not part of the repository. They are parameters of the
  model, collected in the record \<open>libs\<close>; every theorem holds for whatever these
  functions compute unless it names a contract for them. The clock is a parameter too:
  \<open>now\<close> is the instant of the call in seconds.

  What the model takes for granted: strings are byte strings; the fields of a request body
  are strings or absent, and a registration body has no other key; the environment is
  set (two secrets, two expiry durations in seconds); the collection of users is always
  reachable, and a document is stored as it was built.
\<close>

subsection \<open>Thrown JavaScript errors\<close>

text \<open>
  The exceptions the modelled code can meet: a property read on \<open>undefined\<close>, an error
  of jsonwebtoken, bcryptjs's "Illegal arguments", a rejected Mongoose validation (with the
  path it rejects) and a failed exchange with the identity provider.
\<close>

datatype exn =
    TypeError string
  | JsonWebTokenError string
  | BcryptIllegalArguments
  | MongooseValidationError "string list"
  | ProviderError string

subsection \<open>util/createError.js\<close>

text \<open>
  The payload of \<open>details\<close> as the call sites build it: a plain string, the object
  \<open>{message: err.message}\<close> of a caught exception, \<open>{email}\<close>, \<open>{role}\<close>
  (\<open>null\<close> is \<open>None\<close>) and the array of joi error items.
\<close>

datatype field = FName | FEmail | FPassword | FRole

datatype error_type =
    AnyRequired | AnyOnly | StringEmpty | StringMin | StringMax | StringEmail
  | StringPatternBase

type_synonym violation = "field \<times> error_type"

datatype details =
    DText string
  | DErrorMessage exn
  | DEmail string
  | DRole "string option"
  | DViolations "violation list"

record options =
  opt_code :: "string option"
  opt_details :: "details option"

record app_error =
  message :: string
  statusCode :: nat
  status :: string
  isOperational :: bool
  code :: "string option"
  details :: "details option"

text \<open>The first decimal digit of a number: what \<open>`${statusCode}`.startsWith("4")\<close> reads.\<close>

fun leading_digit :: "nat \<Rightarrow> nat" where
  "leading_digit n = (if n < 10 then n else leading_digit (n div 10))"

declare leading_digit.simps [simp del]

text \<open>JavaScript truthiness of the two option fields: an empty string is falsy, an
  object or an array (even an empty one) is truthy.\<close>

fun truthy_details :: "details \<Rightarrow> bool" where
  "truthy_details (DText s) = (s \<noteq> [])"
| "truthy_details _ = True"

definition createError :: "string \<Rightarrow> nat \<Rightarrow> options \<Rightarrow> app_error" where
  "createError msg sc opts =
     \<lparr> message = msg,
       statusCode = sc,
       status = (if leading_digit sc = 4 then ''fail'' else ''error''),
       isOperational = True,
       code = (case opt_code opts of None \<Rightarrow> None
               | Some c \<Rightarrow> if c = [] then None else Some c),
       details = (case opt_details opts of None \<Rightarrow> None
                  | Some d \<Rightarrow> if truthy_details d then Some d else None) \<rparr>"

definition no_options :: options where
  "no_options = \<lparr> opt_code = None, opt_details = None \<rparr>"

subsection \<open>Requests, responses and what a middleware does with them\<close>

text \<open>The decoded payload of a token, and the payload handed to \<open>jwt.sign\<close>.\<close>

record claims =
  claim_id :: string
  claim_role :: "string option"
  claim_iat :: nat
  claim_exp :: nat

record payload =
  payload_id :: string
  payload_role :: "string option"

record register_body =
  body_name :: "string option"
  body_email :: "string option"
  body_password :: "string option"
  body_role :: "string option"

record request =
  headers_authorization :: "string option"
  cookies_refreshToken :: "string option"
  user :: "claims option"

record cookie =
  cookie_name :: string
  cookie_token :: string
  httpOnly :: bool
  secure :: bool
  sameSite :: string
  maxAge :: nat

datatype data =
    NoData
  | RegisterData string string string
  | LoginData string string string "string option"
  | RefreshData string

record envelope =
  success :: bool
  body_status :: string
  body_message :: string
  body_code :: "string option"
  body_details :: "details option"
  body_data :: data

record response =
  http_status :: nat
  json :: "envelope option"
  set_cookies :: "cookie list"
  redirect :: "string option"

text \<open>
  What one run of a middleware or handler ends in: \<open>next()\<close> with the request as it
  now is, \<open>next(err)\<close>, a response written, or an exception that leaves the function
  (a throw, or the rejection of the promise an async handler returns).
\<close>

datatype outcome =
    Next request
  | NextErr app_error
  | Responded response
  | Escaped exn

subsection \<open>util/sendSucess.js and middlewares/errorHandler.js\<close>

definition sendSuccess :: "nat \<Rightarrow> string \<Rightarrow> data \<Rightarrow> response" where
  "sendSuccess sc msg d =
     \<lparr> http_status = sc,
       json = Some \<lparr> success = True, body_status = ''success'', body_message = msg,
                     body_code = None, body_details = None, body_data = d \<rparr>,
       set_cookies = [],
       redirect = None \<rparr>"

definition errorHandler :: "app_error \<Rightarrow> response" where
  "errorHandler err =
     \<lparr> http_status = (if statusCode err = 0 then 500 else statusCode err),
       json = Some \<lparr> success = False,
                     body_status = (if status err = [] then ''error'' else status err),
                     body_message = (if message err = [] then ''Internal Server Error''
                                     else message err),
                     body_code = (case code err of None \<Rightarrow> None
                                  | Some c \<Rightarrow> if c = [] then None else Some c),
                     body_details = (case details err of None \<Rightarrow> None
                                     | Some d \<Rightarrow> if truthy_details d then Some d else None),
                     body_data = NoData \<rparr>,
       set_cookies = [],
       redirect = None \<rparr>"

subsection \<open>Configuration and the external packages\<close>

record env =
  JWT_ACCESS_SECRET :: string
  JWT_ACCESS_EXPIRES_IN :: nat
  JWT_REFRESH_SECRET :: string
  JWT_REFRESH_EXPIRES_IN :: nat
  NODE_ENV :: "string option"

record google_profile =
  g_name :: string
  g_email :: string

text \<open>
  \<open>jwt_sign p secret expiresIn now\<close> is \<open>jwt.sign(p, secret, {expiresIn})\<close> run at
  \<open>now\<close>; \<open>jwt_verify token secret now\<close> is \<open>jwt.verify(token, secret)\<close> run at
  \<open>now\<close>, \<open>Inl\<close> the error it reports. \<open>bcrypt_hash\<close> and \<open>bcrypt_compare\<close> are
  bcryptjs on two strings, \<open>joi_email\<close> is joi's e-mail check and
  \<open>google_exchange\<close> is the code exchange followed by \<open>jwt.decode\<close> of the identity
  token.
\<close>

record libs =
  jwt_sign :: "payload \<Rightarrow> string \<Rightarrow> nat \<Rightarrow> nat \<Rightarrow> string"
  jwt_verify :: "string \<Rightarrow> string \<Rightarrow> nat \<Rightarrow> exn + claims"
  bcrypt_hash :: "string \<Rightarrow> nat \<Rightarrow> string"
  bcrypt_compare :: "string \<Rightarrow> string \<Rightarrow> bool"
  joi_email :: "string \<Rightarrow> bool"
  google_exchange :: "string \<Rightarrow> exn + google_profile"

subsection \<open>util/token.js\<close>

definition generateAccessToken :: "libs \<Rightarrow> env \<Rightarrow> nat \<Rightarrow> string \<Rightarrow> string option \<Rightarrow> string" where
  "generateAccessToken lib e now userId userRole =
     jwt_sign lib \<lparr> payload_id = userId, payload_role = userRole \<rparr>
       (JWT_ACCESS_SECRET e) (JWT_ACCESS_EXPIRES_IN e) now"

definition generateRefreshToken :: "libs \<Rightarrow> env \<Rightarrow> nat \<Rightarrow> string \<Rightarrow> string option \<Rightarrow> string" where
  "generateRefreshToken lib e now userId userRole =
     jwt_sign lib \<lparr> payload_id = userId, payload_role = userRole \<rparr>
       (JWT_REFRESH_SECRET e) (JWT_REFRESH_EXPIRES_IN e) now"

subsection \<open>String helpers of JavaScript\<close>

text \<open>\<open>s.split(c)\<close> for a one-character separator: never empty, \<open>"".split(" ")\<close> is
  \<open>[""]\<close>.\<close>

fun js_split :: "char \<Rightarrow> string \<Rightarrow> string list" where
  "js_split c [] = [[]]"
| "js_split c (x # xs) =
     (if x = c then [] # js_split c xs
      else (case js_split c xs of
              [] \<Rightarrow> [[x]]
            | w # ws \<Rightarrow> (x # w) # ws))"

text \<open>\<open>xs[i]\<close>: \<open>undefined\<close> (here \<open>None\<close>) out of range.\<close>

fun js_index :: "'a list \<Rightarrow> nat \<Rightarrow> 'a option" where
  "js_index [] i = None"
| "js_index (x # xs) 0 = Some x"
| "js_index (x # xs) (Suc i) = js_index xs i"

text \<open>\<open>!s\<close> for a value that is a string or \<open>undefined\<close>.\<close>

fun falsy :: "string option \<Rightarrow> bool" where
  "falsy None = True"
| "falsy (Some s) = (s = [])"

subsection \<open>middlewares/verifyToken.js\<close>

definition verifyToken :: "libs \<Rightarrow> env \<Rightarrow> nat \<Rightarrow> request \<Rightarrow> outcome" where
  "verifyToken lib e now req =
     (let authHeader = headers_authorization req;
          token = (case authHeader of None \<Rightarrow> None
                   | Some h \<Rightarrow> js_index (js_split CHR '' '' h) 1)
      in case token of
           None \<Rightarrow> NextErr (createError ''Access token is required'' 401 no_options)
         | Some t \<Rightarrow>
             if t = [] then NextErr (createError ''Access token is required'' 401 no_options)
             else (case jwt_verify lib t (JWT_ACCESS_SECRET e) now of
                     Inl err \<Rightarrow>
                       NextErr (createError ''invalid access token'' 403
                         \<lparr> opt_code = None,
                           opt_details = Some (DText ''Token is  expired or invalid'') \<rparr>)
                   | Inr decoded \<Rightarrow> Next (req \<lparr> user := Some decoded \<rparr>)))"

subsection \<open>middlewares/authorization.js\<close>

text \<open>
  The guard reads the header itself. \<open>authHeader.split\<close> on a missing header throws a
  TypeError; \<open>jwt.verify\<close> without a callback throws what it would report, and throws
  "jwt must be provided" for a token that is \<open>undefined\<close> or empty. Every throw lands
  in the \<open>catch\<close>, which answers 401.
\<close>

definition authorization_error :: "exn \<Rightarrow> app_error" where
  "authorization_error err =
     createError ''Authorization failed'' 401
       \<lparr> opt_code = Some ''AUTHORIZATION_ERROR'', opt_details = Some (DErrorMessage err) \<rparr>"

definition not_authorized :: "string option \<Rightarrow> app_error" where
  "not_authorized r =
     createError ''You are not authorized to access this resource'' 403
       \<lparr> opt_code = Some ''UNAUTHORIZED'', opt_details = Some (DRole r) \<rparr>"

definition js_includes :: "string list \<Rightarrow> string option \<Rightarrow> bool" where
  "js_includes allowedRoles r = (case r of None \<Rightarrow> False | Some s \<Rightarrow> s \<in> set allowedRoles)"

definition authorization :: "string list \<Rightarrow> libs \<Rightarrow> env \<Rightarrow> nat \<Rightarrow> request \<Rightarrow> outcome" where
  "authorization allowedRoles lib e now req =
     (case headers_authorization req of
        None \<Rightarrow>
          NextErr (authorization_error
            (TypeError ''Cannot read properties of undefined (reading 'split')''))
      | Some authHeader \<Rightarrow>
          (case js_index (js_split CHR '' '' authHeader) 1 of
             None \<Rightarrow> NextErr (authorization_error (JsonWebTokenError ''jwt must be provided''))
           | Some token \<Rightarrow>
               if token = []
               then NextErr (authorization_error (JsonWebTokenError ''jwt must be provided''))
               else (case jwt_verify lib token (JWT_ACCESS_SECRET e) now of
                       Inl err \<Rightarrow> NextErr (authorization_error err)
                     | Inr decoded \<Rightarrow>
                         if falsy (claim_role decoded) \<or>
                            \<not> js_includes allowedRoles (claim_role decoded)
                         then NextErr (not_authorized (claim_role decoded))
                         else Next req)))"

subsection \<open>models/User.js\<close>

text \<open>
  A stored User document. \<open>uid\<close> is \<open>_id\<close>. \<open>password\<close> and \<open>role\<close> may be
  absent: the schema requires a password only when \<open>google\<close> is false and does not
  require a role.
\<close>

record user_doc =
  uid :: string
  name :: string
  email :: string
  password :: "string option"
  google :: bool
  role :: "string option"
  createdAt :: nat

text \<open>
  The validators \<open>save\<close> runs, as the paths they reject: \<open>required\<close> on name and
  email (an empty string fails it), \<open>required\<close> on password when \<open>!this.google\<close>, and
  the enum on role (a role that is absent passes it).
\<close>

definition mongoose_validate :: "user_doc \<Rightarrow> string list" where
  "mongoose_validate u =
     (if name u = [] then [''name''] else []) @
     (if email u = [] then [''email''] else []) @
     (if \<not> google u \<and> falsy (password u) then [''password''] else []) @
     (case role u of
        None \<Rightarrow> []
      | Some r \<Rightarrow> if r \<in> set [''admin'', ''doctor'', ''staff''] then [] else [''role''])"

text \<open>\<open>User.findOne({email})\<close> on the collection.\<close>

definition findOne :: "user_doc list \<Rightarrow> string \<Rightarrow> user_doc option" where
  "findOne store e = find (\<lambda>u. email u = e) store"

subsection \<open>util/validations/RegistrationValidation.js\<close>

text \<open>
  The schema as data, and joi's evaluation of it on a body whose four fields are strings
  or absent. A key that is \<open>undefined\<close> fails \<open>required()\<close> and nothing else; a value
  outside a \<open>valid(...)\<close> list is \<open>any.only\<close>; an empty string is \<open>string.empty\<close> and ends
  the key; then every rule is tried in the order written. With \<open>abortEarly\<close> the first
  error ends the validation.
\<close>

datatype rule = RMin nat | RMax nat | REmail | RPattern

record key_schema =
  ks_field :: field
  ks_valid :: "string list option"
  ks_rules :: "rule list"
  ks_required :: bool

definition is_lower :: "char \<Rightarrow> bool" where
  "is_lower c = (97 \<le> (of_char c :: nat) \<and> (of_char c :: nat) \<le> 122)"

definition is_upper :: "char \<Rightarrow> bool" where
  "is_upper c = (65 \<le> (of_char c :: nat) \<and> (of_char c :: nat) \<le> 90)"

definition is_digit :: "char \<Rightarrow> bool" where
  "is_digit c = (48 \<le> (of_char c :: nat) \<and> (of_char c :: nat) \<le> 57)"

text \<open>The bracket of the pattern: \<open>!@#$%^&*()_+-=[]{};':"\|,.<>/?~`\<close>.\<close>

definition is_special :: "char \<Rightarrow> bool" where
  "is_special c =
     (c \<in> set (''!@#$%^&*()_+-=[]{};:|,.<>/?~'' @ [CHR 0x27, CHR 0x22, CHR 0x5C, CHR 0x60]))"

text \<open>
  The pattern of the password: four look-aheads (a lower-case letter, an upper-case letter,
  a digit, a special character somewhere) and then at least eight characters, all of them
  letters, digits or special characters, up to the end.
\<close>

definition password_pattern :: "string \<Rightarrow> bool" where
  "password_pattern s =
     (list_ex is_lower s \<and> list_ex is_upper s \<and> list_ex is_digit s \<and> list_ex is_special s \<and>
      list_all (\<lambda>c. is_lower c \<or> is_upper c \<or> is_digit c \<or> is_special c) s \<and>
      8 \<le> length s)"

fun rule_ok :: "libs \<Rightarrow> rule \<Rightarrow> string \<Rightarrow> bool" where
  "rule_ok lib (RMin n) s = (n \<le> length s)"
| "rule_ok lib (RMax n) s = (length s \<le> n)"
| "rule_ok lib REmail s = joi_email lib s"
| "rule_ok lib RPattern s = password_pattern s"

fun rule_error :: "rule \<Rightarrow> error_type" where
  "rule_error (RMin n) = StringMin"
| "rule_error (RMax n) = StringMax"
| "rule_error REmail = StringEmail"
| "rule_error RPattern = StringPatternBase"

definition registerSchema :: "key_schema list" where
  "registerSchema =
     [ \<lparr> ks_field = FName, ks_valid = None, ks_rules = [RMin 3, RMax 50], ks_required = True \<rparr>,
       \<lparr> ks_field = FEmail, ks_valid = None, ks_rules = [REmail], ks_required = True \<rparr>,
       \<lparr> ks_field = FPassword, ks_valid = None, ks_rules = [RMin 8, RPattern],
         ks_required = True \<rparr>,
       \<lparr> ks_field = FRole, ks_valid = Some [''patient'', ''doctor'', ''staff'', ''admin''],
         ks_rules = [], ks_required = True \<rparr> ]"

fun field_of :: "register_body \<Rightarrow> field \<Rightarrow> string option" where
  "field_of b FName = body_name b"
| "field_of b FEmail = body_email b"
| "field_of b FPassword = body_password b"
| "field_of b FRole = body_role b"

fun check_rules :: "bool \<Rightarrow> libs \<Rightarrow> field \<Rightarrow> rule list \<Rightarrow> string \<Rightarrow> violation list" where
  "check_rules abortEarly lib f [] s = []"
| "check_rules abortEarly lib f (r # rs) s =
     (if rule_ok lib r s then check_rules abortEarly lib f rs s
      else if abortEarly then [(f, rule_error r)]
      else (f, rule_error r) # check_rules abortEarly lib f rs s)"

definition check_string :: "bool \<Rightarrow> libs \<Rightarrow> key_schema \<Rightarrow> string \<Rightarrow> violation list" where
  "check_string abortEarly lib ks s =
     (if s = [] then [(ks_field ks, StringEmpty)]
      else check_rules abortEarly lib (ks_field ks) (ks_rules ks) s)"

definition validate_key :: "bool \<Rightarrow> libs \<Rightarrow> key_schema \<Rightarrow> string option \<Rightarrow> violation list" where
  "validate_key abortEarly lib ks v =
     (case v of
        None \<Rightarrow> if ks_required ks then [(ks_field ks, AnyRequired)] else []
      | Some s \<Rightarrow>
          (case ks_valid ks of
             None \<Rightarrow> check_string abortEarly lib ks s
           | Some allowed \<Rightarrow>
               if s \<in> set allowed then []
               else if abortEarly then [(ks_field ks, AnyOnly)]
               else (ks_field ks, AnyOnly) # check_string abortEarly lib ks s))"

fun joi_validate :: "bool \<Rightarrow> libs \<Rightarrow> key_schema list \<Rightarrow> register_body \<Rightarrow> violation list" where
  "joi_validate abortEarly lib [] b = []"
| "joi_validate abortEarly lib (ks # rest) b =
     (let errs = validate_key abortEarly lib ks (field_of b (ks_field ks))
      in if abortEarly \<and> errs \<noteq> [] then errs
         else errs @ joi_validate abortEarly lib rest b)"

text \<open>
  The rules of the schema one by one, as properties of a body: which error items a body
  deserves. A rule on a string is not tried on a key that is missing or empty (that key
  has its own error), so these are the only violations there are.
\<close>

fun violates :: "libs \<Rightarrow> register_body \<Rightarrow> violation \<Rightarrow> bool" where
  "violates lib b (f, AnyRequired) = (field_of b f = None)"
| "violates lib b (f, StringEmpty) = (field_of b f = Some [])"
| "violates lib b (FName, StringMin) =
     (case body_name b of None \<Rightarrow> False | Some s \<Rightarrow> s \<noteq> [] \<and> length s < 3)"
| "violates lib b (FName, StringMax) =
     (case body_name b of None \<Rightarrow> False | Some s \<Rightarrow> 50 < length s)"
| "violates lib b (FEmail, StringEmail) =
     (case body_email b of None \<Rightarrow> False | Some s \<Rightarrow> s \<noteq> [] \<and> \<not> joi_email lib s)"
| "violates lib b (FPassword, StringMin) =
     (case body_password b of None \<Rightarrow> False | Some s \<Rightarrow> s \<noteq> [] \<and> length s < 8)"
| "violates lib b (FPassword, StringPatternBase) =
     (case body_password b of None \<Rightarrow> False | Some s \<Rightarrow> s \<noteq> [] \<and> \<not> password_pattern s)"
| "violates lib b (FRole, AnyOnly) =
     (case body_role b of None \<Rightarrow> False
      | Some s \<Rightarrow> s \<notin> set [''patient'', ''doctor'', ''staff'', ''admin''])"
| "violates lib b (f, et) = False"

subsection \<open>controllers/authController.js\<close>

text \<open>
  \<open>Register\<close> runs inside \<open>try\<close>/\<open>catch\<close>: a rejected \<open>save\<close> becomes the 500
  REGISTRATION_ERROR. \<open>oid\<close> is the \<open>_id\<close> the driver gives the new document. Once the
  schema has passed, all four fields are present (lemma \<open>validated_fields\<close>), so the last
  case is never reached; there \<open>bcrypt.hash\<close> would reject its argument inside the
  \<open>try\<close>.
\<close>

definition registration_error :: "exn \<Rightarrow> app_error" where
  "registration_error err =
     createError ''Registration failed'' 500
       \<lparr> opt_code = Some ''REGISTRATION_ERROR'', opt_details = Some (DErrorMessage err) \<rparr>"

definition Register ::
  "libs \<Rightarrow> nat \<Rightarrow> string \<Rightarrow> user_doc list \<Rightarrow> register_body \<Rightarrow> outcome \<times> user_doc list" where
  "Register lib now oid store b =
     (case joi_validate False lib registerSchema b of
        v # vs \<Rightarrow>
          (NextErr (createError ''Validation Error'' 400
             \<lparr> opt_code = Some ''VALIDATION_FAILED'',
               opt_details = Some (DViolations (v # vs)) \<rparr>), store)
      | [] \<Rightarrow>
          (case (body_name b, body_email b, body_password b, body_role b) of
             (Some nm, Some em, Some pw, Some rl) \<Rightarrow>
               (case findOne store em of
                  Some existingUser \<Rightarrow>
                    (NextErr (createError ''User already exists'' 400
                       \<lparr> opt_code = Some ''USER_EXISTS'', opt_details = Some (DEmail em) \<rparr>),
                     store)
                | None \<Rightarrow>
                    (let hashedPassword = bcrypt_hash lib pw 10;
                         newUser = \<lparr> uid = oid, name = nm, email = em,
                                     password = Some hashedPassword, google = False,
                                     role = Some rl, createdAt = now \<rparr>
                     in case mongoose_validate newUser of
                          [] \<Rightarrow>
                            (Responded (sendSuccess 201 ''User registered successfully''
                               (RegisterData (uid newUser) (name newUser) (email newUser))),
                             store @ [newUser])
                        | p # ps \<Rightarrow>
                            (NextErr (registration_error (MongooseValidationError (p # ps))),
                             store)))
           | _ \<Rightarrow> (NextErr (registration_error BcryptIllegalArguments), store)))"

text \<open>
  \<open>login\<close> has no \<open>try\<close>: \<open>bcrypt.compare(password, undefined)\<close> rejects with
  "Illegal arguments" and the rejection leaves the handler. The body is taken with both
  fields present as strings.
\<close>

record login_body =
  login_email :: string
  login_password :: string

definition invalid_credentials :: "string \<Rightarrow> app_error" where
  "invalid_credentials em =
     createError ''Invalid email or password'' 401
       \<lparr> opt_code = Some ''INVALID_CREDENTIALS'', opt_details = Some (DEmail em) \<rparr>"

definition refresh_cookie :: "env \<Rightarrow> string \<Rightarrow> cookie" where
  "refresh_cookie e tok =
     \<lparr> cookie_name = ''refreshToken'', cookie_token = tok, httpOnly = True,
       secure = (NODE_ENV e = Some ''production''), sameSite = ''Strict'',
       maxAge = 30 * 24 * 60 * 60 * 1000 \<rparr>"

definition login :: "libs \<Rightarrow> env \<Rightarrow> nat \<Rightarrow> user_doc list \<Rightarrow> login_body \<Rightarrow> outcome" where
  "login lib e now store b =
     (case findOne store (login_email b) of
        None \<Rightarrow> NextErr (invalid_credentials (login_email b))
      | Some u \<Rightarrow>
          (case password u of
             None \<Rightarrow> Escaped BcryptIllegalArguments
           | Some h \<Rightarrow>
               if \<not> bcrypt_compare lib (login_password b) h
               then NextErr (invalid_credentials (login_email b))
               else
                 (let accessToken = generateAccessToken lib e now (uid u) (role u);
                      refreshToken = generateRefreshToken lib e now (uid u) (role u)
                  in Responded
                       ((sendSuccess 200 ''Login successful''
                           (LoginData accessToken (uid u) (name u) (role u)))
                        \<lparr> set_cookies := [refresh_cookie e refreshToken] \<rparr>))))"

definition refreshToken :: "libs \<Rightarrow> env \<Rightarrow> nat \<Rightarrow> request \<Rightarrow> outcome" where
  "refreshToken lib e now req =
     (case cookies_refreshToken req of
        None \<Rightarrow> NextErr (createError ''Refresh token is required'' 401 no_options)
      | Some t \<Rightarrow>
          if t = [] then NextErr (createError ''Refresh token is required'' 401 no_options)
          else (case jwt_verify lib t (JWT_REFRESH_SECRET e) now of
                  Inl err \<Rightarrow>
                    NextErr (createError
                      ''Refresh token is expired , your session is ended , login again !''
                      403 no_options)
                | Inr decoded \<Rightarrow>
                    Responded (sendSuccess 200 ''Token refreshed successfully''
                      (RefreshData
                         (generateAccessToken lib e now (claim_id decoded) (claim_role decoded))))))"

text \<open>
  \<open>googleCallback\<close> has no \<open>try\<close> either. The redirect reads \<open>_id\<close> and \<open>role\<close> of
  the decoded Google profile, which has neither, so both print as \<open>undefined\<close>.
\<close>

definition oauth_finish :: "libs \<Rightarrow> env \<Rightarrow> nat \<Rightarrow> google_profile \<Rightarrow> user_doc \<Rightarrow> response" where
  "oauth_finish lib e now g finalUser =
     (let accessToken = generateAccessToken lib e now (uid finalUser) (role finalUser);
          refreshToken = generateRefreshToken lib e now (uid finalUser) (role finalUser)
      in \<lparr> http_status = 302, json = None,
           set_cookies = [refresh_cookie e refreshToken],
           redirect = Some (''http://localhost:5173/patients?accessToken='' @ accessToken @
                            ''&name='' @ g_name g @ ''&id=undefined&role=undefined'') \<rparr>)"

definition googleCallback ::
  "libs \<Rightarrow> env \<Rightarrow> nat \<Rightarrow> string \<Rightarrow> user_doc list \<Rightarrow> string \<Rightarrow> outcome \<times> user_doc list" where
  "googleCallback lib e now oid store authCode =
     (case google_exchange lib authCode of
        Inl err \<Rightarrow> (Escaped err, store)
      | Inr g \<Rightarrow>
          (case findOne store (g_email g) of
             None \<Rightarrow>
               (let newUser = \<lparr> uid = oid, name = g_name g, email = g_email g,
                                password = None, google = True, role = Some ''doctor'',
                                createdAt = now \<rparr>
                in case mongoose_validate newUser of
                     [] \<Rightarrow> (Responded (oauth_finish lib e now g newUser), store @ [newUser])
                   | p # ps \<Rightarrow> (Escaped (MongooseValidationError (p # ps)), store))
           | Some existingUser \<Rightarrow> (Responded (oauth_finish lib e now g existingUser), store)))"

subsection \<open>The contract of jsonwebtoken\<close>

text \<open>
  What the code relies on from \<open>jwt.sign\<close> and \<open>jwt.verify\<close>: a token signed at
  \<open>t\<close> with \<open>expiresIn\<close> verifies under the same secret at every instant before
  \<open>t + expiresIn\<close> and gives back the payload with \<open>iat = t\<close> and
  \<open>exp = t + expiresIn\<close>; a token is a non-empty string without a space (base64url
  segments joined by dots).
\<close>

definition signed_claims :: "payload \<Rightarrow> nat \<Rightarrow> nat \<Rightarrow> claims" where
  "signed_claims p expiresIn t =
     \<lparr> claim_id = payload_id p, claim_role = payload_role p,
       claim_iat = t, claim_exp = t + expiresIn \<rparr>"

definition jwt_contract :: "libs \<Rightarrow> bool" where
  "jwt_contract lib =
     (\<forall>p secret expiresIn t t'.
        (t' < t + expiresIn \<longrightarrow>
           jwt_verify lib (jwt_sign lib p secret expiresIn t) secret t' =
             Inr (signed_claims p expiresIn t)) \<and>
        jwt_sign lib p secret expiresIn t \<noteq> [] \<and>
        CHR '' '' \<notin> set (jwt_sign lib p secret expiresIn t))"

subsection \<open>A reference instance of the external packages\<close>

text \<open>
  A small instance of \<open>libs\<close> for closed examples and to show that the contract can be
  met. A token is five dot-separated segments: the id, the role, \<open>iat\<close> and \<open>exp\<close> in
  unary, and the secret in the place of the signature. Strings are armoured into the
  letters \<open>a\<close> to \<open>p\<close>, two per byte, so that a segment holds neither a dot nor a
  space.
\<close>

definition nibble :: "nat \<Rightarrow> char" where
  "nibble n = char_of (97 + n)"

definition unnibble :: "char \<Rightarrow> nat" where
  "unnibble c = of_char c - 97"

fun armour :: "string \<Rightarrow> string" where
  "armour [] = []"
| "armour (c # cs) =
     nibble ((of_char c :: nat) div 16) # nibble ((of_char c :: nat) mod 16) # armour cs"

fun dearmour :: "string \<Rightarrow> string" where
  "dearmour (a # b # cs) = char_of (16 * unnibble a + unnibble b) # dearmour cs"
| "dearmour _ = []"

definition unary :: "nat \<Rightarrow> string" where
  "unary n = replicate n CHR ''i''"

definition role_segment :: "string option \<Rightarrow> string" where
  "role_segment r = (case r of None \<Rightarrow> ''n'' | Some s \<Rightarrow> CHR ''s'' # armour s)"

definition ref_sign :: "payload \<Rightarrow> string \<Rightarrow> nat \<Rightarrow> nat \<Rightarrow> string" where
  "ref_sign p secret expiresIn t =
     armour (payload_id p) @ CHR ''.'' # role_segment (payload_role p) @ CHR ''.'' #
     unary t @ CHR ''.'' # unary (t + expiresIn) @ CHR ''.'' # armour secret"

definition ref_verify :: "string \<Rightarrow> string \<Rightarrow> nat \<Rightarrow> exn + claims" where
  "ref_verify tok secret t =
     (case js_split CHR ''.'' tok of
        [a, r, i, x, s] \<Rightarrow>
          if s \<noteq> armour secret then Inl (JsonWebTokenError ''invalid signature'')
          else if length x \<le> t then Inl (JsonWebTokenError ''jwt expired'')
          else (case r of
                  [] \<Rightarrow> Inl (JsonWebTokenError ''jwt malformed'')
                | c # rs \<Rightarrow>
                    Inr \<lparr> claim_id = dearmour a,
                          claim_role = (if c = CHR ''n'' then None else Some (dearmour rs)),
                          claim_iat = length i, claim_exp = length x \<rparr>)
      | _ \<Rightarrow> Inl (JsonWebTokenError ''jwt malformed''))"

definition ref_libs :: libs where
  "ref_libs =
     \<lparr> jwt_sign = ref_sign,
       jwt_verify = ref_verify,
       bcrypt_hash = (\<lambda>pw rounds. ''$2b$'' @ pw),
       bcrypt_compare = (\<lambda>pw h. h = ''$2b$'' @ pw),
       joi_email = (\<lambda>s. CHR ''@'' \<in> set s),
       google_exchange =
         (\<lambda>c. if c = [] then Inl (ProviderError ''invalid_grant'')
              else Inr \<lparr> g_name = c, g_email = c @ ''@gmail.com'' \<rparr>) \<rparr>"

definition test_env :: env where
  "test_env =
     \<lparr> JWT_ACCESS_SECRET = ''access'', JWT_ACCESS_EXPIRES_IN = 900,
       JWT_REFRESH_SECRET = ''refresh'', JWT_REFRESH_EXPIRES_IN = 604800,
       NODE_ENV = Some ''test'' \<rparr>"

subsection \<open>Facts about the error factory\<close>

lemma leading_digit_401: "leading_digit 401 = 4"
  by (simp add: leading_digit.simps)

lemma leading_digit_403: "leading_digit 403 = 4"
  by (simp add: leading_digit.simps)

lemma leading_digit_400: "leading_digit 400 = 4"
  by (simp add: leading_digit.simps)

lemma leading_digit_500: "leading_digit 500 = 5"
  by (simp add: leading_digit.simps)

lemma statusCode_createError: "statusCode (createError msg sc opts) = sc"
  by (simp add: createError_def)

lemma message_createError: "message (createError msg sc opts) = msg"
  by (simp add: createError_def)

subsection \<open>The reference instance meets the contract\<close>

lemma js_split_no_sep: "c \<notin> set a \<Longrightarrow> js_split c a = [a]"
  by (induction a) (auto split: list.splits)

lemma js_split_append: "c \<notin> set a \<Longrightarrow> js_split c (a @ c # rest) = a # js_split c rest"
  by (induction a) (auto split: list.splits)

lemma of_char_nibble: "n < 16 \<Longrightarrow> (of_char (nibble n) :: nat) = 97 + n"
  by (simp add: nibble_def)

lemma unnibble_nibble: "n < 16 \<Longrightarrow> unnibble (nibble n) = n"
  by (simp add: unnibble_def of_char_nibble)

lemma nibble_not_dot: "n < 16 \<Longrightarrow> nibble n \<noteq> CHR ''.''"
  using of_char_nibble [of n] by (auto dest: arg_cong [where f = "of_char :: char \<Rightarrow> nat"])

lemma nibble_not_space: "n < 16 \<Longrightarrow> nibble n \<noteq> CHR '' ''"
  using of_char_nibble [of n] by (auto dest: arg_cong [where f = "of_char :: char \<Rightarrow> nat"])

lemma of_char_lt_256: "(of_char c :: nat) < 256"
  by (cases c) simp

lemma hi_nibble: "(of_char c :: nat) div 16 < 16"
proof -
  have "(of_char c :: nat) < 16 * 16" using of_char_lt_256 [of c] by simp
  then show ?thesis by (rule less_mult_imp_div_less)
qed

lemma dearmour_armour: "dearmour (armour s) = s"
proof (induction s)
  case Nil
  show ?case by simp
next
  case (Cons c cs)
  have d: "(of_char c :: nat) div 16 < 16" by (rule hi_nibble)
  have m: "(of_char c :: nat) mod 16 < 16" by simp
  have "char_of (16 * ((of_char c :: nat) div 16) + (of_char c :: nat) mod 16) = c" by simp
  with Cons d m show ?case by (simp add: unnibble_nibble)
qed

lemma dot_notin_armour: "CHR ''.'' \<notin> set (armour s)"
proof (induction s)
  case Nil
  show ?case by simp
next
  case (Cons c cs)
  have d: "(of_char c :: nat) div 16 < 16" by (rule hi_nibble)
  have m: "(of_char c :: nat) mod 16 < 16" by simp
  from Cons nibble_not_dot [OF d] nibble_not_dot [OF m] show ?case by auto
qed

lemma space_notin_armour: "CHR '' '' \<notin> set (armour s)"
proof (induction s)
  case Nil
  show ?case by simp
next
  case (Cons c cs)
  have d: "(of_char c :: nat) div 16 < 16" by (rule hi_nibble)
  have m: "(of_char c :: nat) mod 16 < 16" by simp
  from Cons nibble_not_space [OF d] nibble_not_space [OF m] show ?case by auto
qed

lemma dot_notin_unary: "CHR ''.'' \<notin> set (unary n)"
  by (simp add: unary_def)

lemma space_notin_unary: "CHR '' '' \<notin> set (unary n)"
  by (simp add: unary_def)

lemma dot_notin_role_segment: "CHR ''.'' \<notin> set (role_segment r)"
  by (cases r) (simp_all add: role_segment_def dot_notin_armour)

lemma space_notin_role_segment: "CHR '' '' \<notin> set (role_segment r)"
  by (cases r) (simp_all add: role_segment_def space_notin_armour)

lemma js_split_ref_sign:
  "js_split CHR ''.'' (ref_sign p secret expiresIn t) =
     [armour (payload_id p), role_segment (payload_role p), unary t, unary (t + expiresIn),
      armour secret]"
  unfolding ref_sign_def
  by (simp only: js_split_append [OF dot_notin_armour] js_split_append [OF dot_notin_role_segment]
        js_split_append [OF dot_notin_unary] js_split_no_sep [OF dot_notin_armour])

lemma ref_round_trip:
  "t' < t + expiresIn \<Longrightarrow>
   ref_verify (ref_sign p secret expiresIn t) secret t' = Inr (signed_claims p expiresIn t)"
  by (cases "payload_role p")
     (simp_all add: ref_verify_def js_split_ref_sign signed_claims_def role_segment_def
        unary_def dearmour_armour)

lemma ref_sign_nonempty: "ref_sign p secret expiresIn t \<noteq> []"
  by (simp add: ref_sign_def)

lemma ref_sign_no_space: "CHR '' '' \<notin> set (ref_sign p secret expiresIn t)"
  by (simp add: ref_sign_def space_notin_armour space_notin_role_segment space_notin_unary)

lemma ref_libs_contract: "jwt_contract ref_libs"
  by (simp add: jwt_contract_def ref_libs_def ref_round_trip ref_sign_nonempty ref_sign_no_space)

subsection \<open>The role guard\<close>

lemma bearer_split:
  assumes "CHR '' '' \<notin> set t"
  shows "js_index (js_split CHR '' '' (''Bearer '' @ t)) 1 = Some t"
proof -
  have "js_split CHR '' '' (''Bearer'' @ CHR '' '' # t) = ''Bearer'' # js_split CHR '' '' t"
    by (rule js_split_append) simp
  with assms show ?thesis by (simp add: js_split_no_sep)
qed

lemma statusCode_not_authorized: "statusCode (not_authorized r) = 403"
  by (simp add: not_authorized_def createError_def)

lemma http_status_errorHandler: "0 < statusCode err \<Longrightarrow> http_status (errorHandler err) = statusCode err"
  by (simp add: errorHandler_def)

lemma authorization_decoded:
  assumes "headers_authorization req = Some h"
    and "js_index (js_split CHR '' '' h) 1 = Some tok"
    and "tok \<noteq> []"
    and "jwt_verify lib tok (JWT_ACCESS_SECRET e) now = Inr decoded"
  shows "authorization allowedRoles lib e now req =
           (if falsy (claim_role decoded) \<or> \<not> js_includes allowedRoles (claim_role decoded)
            then NextErr (not_authorized (claim_role decoded)) else Next req)"
  using assms by (simp add: authorization_def)

lemma authorization_empty_never_next: "authorization [] lib e now req \<noteq> Next r"
  by (simp add: authorization_def js_includes_def split: option.splits sum.splits if_splits)

lemma verifyToken_next:
  assumes "verifyToken lib e now req = Next req'"
  shows "\<exists>h tok decoded. headers_authorization req = Some h \<and>
           js_index (js_split CHR '' '' h) 1 = Some tok \<and> tok \<noteq> [] \<and>
           jwt_verify lib tok (JWT_ACCESS_SECRET e) now = Inr decoded \<and>
           req' = req \<lparr> user := Some decoded \<rparr>"
  using assms
  by (auto simp: verifyToken_def Let_def split: option.splits if_splits sum.splits)

text \<open>
  Claim C2. Whenever the guard has decoded an identity whose role is not, as an exact
  string, one of \<open>allowedRoles\<close>, it hands \<open>next\<close> the 403 error: so role "Doctor" is
  denied by \<open>authorization ["doctor"]\<close>, and with the empty list every decoded caller is
  denied with 403 and no request at all is let through. The same holds for the identity
  that \<open>verifyToken\<close> has just attached, when the guard runs behind it on the request it
  passed on.
\<close>

theorem authorization_denies_role_outside_list:
  "(\<forall>h tok decoded.
      headers_authorization req = Some h \<and>
      js_index (js_split CHR '' '' h) 1 = Some tok \<and> tok \<noteq> [] \<and>
      jwt_verify lib tok (JWT_ACCESS_SECRET e) now = Inr decoded \<longrightarrow>
        ((\<forall>r. claim_role decoded = Some r \<longrightarrow> r \<notin> set allowedRoles) \<longrightarrow>
           authorization allowedRoles lib e now req =
             NextErr (not_authorized (claim_role decoded))) \<and>
        (claim_role decoded = Some ''Doctor'' \<longrightarrow>
           authorization [''doctor''] lib e now req =
             NextErr (not_authorized (Some ''Doctor''))) \<and>
        authorization [] lib e now req = NextErr (not_authorized (claim_role decoded))) \<and>
   (\<forall>req' decoded.
      verifyToken lib e now req = Next req' \<and> user req' = Some decoded \<and>
      (\<forall>r. claim_role decoded = Some r \<longrightarrow> r \<notin> set allowedRoles) \<longrightarrow>
        authorization allowedRoles lib e now req' =
          NextErr (not_authorized (claim_role decoded))) \<and>
   (\<forall>req' r. authorization [] lib e now req' \<noteq> Next r) \<and>
   (\<forall>r. statusCode (not_authorized r) = 403 \<and>
        http_status (errorHandler (not_authorized r)) = 403)"
proof (intro conjI allI impI)
  fix h tok decoded
  assume a: "headers_authorization req = Some h \<and>
      js_index (js_split CHR '' '' h) 1 = Some tok \<and> tok \<noteq> [] \<and>
      jwt_verify lib tok (JWT_ACCESS_SECRET e) now = Inr decoded"
  then have d: "\<And>roles. authorization roles lib e now req =
           (if falsy (claim_role decoded) \<or> \<not> js_includes roles (claim_role decoded)
            then NextErr (not_authorized (claim_role decoded)) else Next req)"
    by (simp add: authorization_decoded)
  {
    assume "\<forall>r. claim_role decoded = Some r \<longrightarrow> r \<notin> set allowedRoles"
    then have "\<not> js_includes allowedRoles (claim_role decoded)"
      by (simp add: js_includes_def split: option.splits)
    then show "authorization allowedRoles lib e now req =
                 NextErr (not_authorized (claim_role decoded))"
      by (simp add: d)
  }
  {
    assume "claim_role decoded = Some ''Doctor''"
    then show "authorization [''doctor''] lib e now req =
                 NextErr (not_authorized (Some ''Doctor''))"
      by (simp add: d js_includes_def)
  }
  show "authorization [] lib e now req = NextErr (not_authorized (claim_role decoded))"
    by (simp add: d js_includes_def split: option.splits)
next
  fix req' decoded
  assume a: "verifyToken lib e now req = Next req' \<and> user req' = Some decoded \<and>
      (\<forall>r. claim_role decoded = Some r \<longrightarrow> r \<notin> set allowedRoles)"
  from a verifyToken_next [of lib e now req req'] obtain h tok where
    h: "headers_authorization req' = Some h"
    and t: "js_index (js_split CHR '' '' h) 1 = Some tok"
    and ne: "tok \<noteq> []"
    and v: "jwt_verify lib tok (JWT_ACCESS_SECRET e) now = Inr decoded"
    by auto
  from a have "\<not> js_includes allowedRoles (claim_role decoded)"
    by (simp add: js_includes_def split: option.splits)
  then show "authorization allowedRoles lib e now req' =
          NextErr (not_authorized (claim_role decoded))"
    by (simp add: authorization_decoded [OF h t ne v])
next
  fix req' r
  show "authorization [] lib e now req' \<noteq> Next r"
    by (rule authorization_empty_never_next)
next
  fix r
  show "statusCode (not_authorized r) = 403"
    by (rule statusCode_not_authorized)
  show "http_status (errorHandler (not_authorized r)) = 403"
    by (simp add: http_status_errorHandler statusCode_not_authorized)
qed

lemma ref_access_token_no_space:
  "CHR '' '' \<notin> set (generateAccessToken ref_libs e t i r)"
  by (simp add: generateAccessToken_def ref_libs_def ref_sign_no_space)

lemma ref_access_token_verifies:
  "t' < t + JWT_ACCESS_EXPIRES_IN e \<Longrightarrow>
   jwt_verify ref_libs (generateAccessToken ref_libs e t i r) (JWT_ACCESS_SECRET e) t' =
     Inr \<lparr> claim_id = i, claim_role = r, claim_iat = t, claim_exp = t + JWT_ACCESS_EXPIRES_IN e \<rparr>"
  using ref_round_trip [of t' t "JWT_ACCESS_EXPIRES_IN e" "\<lparr> payload_id = i, payload_role = r \<rparr>" "JWT_ACCESS_SECRET e"]
  by (simp add: generateAccessToken_def ref_libs_def signed_claims_def)

theorem authorization_denies_role_outside_list_witness:
  "authorization [''doctor''] ref_libs test_env 10
     \<lparr> headers_authorization =
         Some (''Bearer '' @ generateAccessToken ref_libs test_env 0 ''u1'' (Some ''Doctor'')),
       cookies_refreshToken = None, user = None \<rparr> =
   NextErr (not_authorized (Some ''Doctor'')) \<and>
   authorization [] ref_libs test_env 10
     \<lparr> headers_authorization =
         Some (''Bearer '' @ generateAccessToken ref_libs test_env 0 ''u1'' (Some ''Doctor'')),
       cookies_refreshToken = None, user = None \<rparr> =
   NextErr (not_authorized (Some ''Doctor'')) \<and>
   statusCode (not_authorized (Some ''Doctor'')) = 403"
proof -
  let ?tok = "generateAccessToken ref_libs test_env 0 ''u1'' (Some ''Doctor'')"
  let ?req = "\<lparr> headers_authorization = Some (''Bearer '' @ ?tok),
                 cookies_refreshToken = None, user = None \<rparr>"
  let ?d = "\<lparr> claim_id = ''u1'', claim_role = Some ''Doctor'', claim_iat = 0,
               claim_exp = 0 + JWT_ACCESS_EXPIRES_IN test_env \<rparr>"
  have h: "headers_authorization ?req = Some (''Bearer '' @ ?tok)" by simp
  have t: "js_index (js_split CHR '' '' (''Bearer '' @ ?tok)) 1 = Some ?tok"
    by (rule bearer_split) (rule ref_access_token_no_space)
  have v: "jwt_verify ref_libs ?tok (JWT_ACCESS_SECRET test_env) 10 = Inr ?d"
    by (rule ref_access_token_verifies) (simp add: test_env_def)
  have r: "claim_role ?d = Some ''Doctor''" by simp
  have ne: "?tok \<noteq> []"
    by (simp add: generateAccessToken_def ref_libs_def ref_sign_nonempty)
  have pre: "headers_authorization ?req = Some (''Bearer '' @ ?tok) \<and>
      js_index (js_split CHR '' '' (''Bearer '' @ ?tok)) 1 = Some ?tok \<and> ?tok \<noteq> [] \<and>
      jwt_verify ref_libs ?tok (JWT_ACCESS_SECRET test_env) 10 = Inr ?d"
    using h t ne v by (intro conjI)
  from authorization_denies_role_outside_list [of ?req ref_libs test_env 10 "[''doctor'']"]
  have "\<forall>h tok decoded.
      headers_authorization ?req = Some h \<and>
      js_index (js_split CHR '' '' h) 1 = Some tok \<and> tok \<noteq> [] \<and>
      jwt_verify ref_libs tok (JWT_ACCESS_SECRET test_env) 10 = Inr decoded \<longrightarrow>
        ((\<forall>r. claim_role decoded = Some r \<longrightarrow> r \<notin> set [''doctor'']) \<longrightarrow>
           authorization [''doctor''] ref_libs test_env 10 ?req =
             NextErr (not_authorized (claim_role decoded))) \<and>
        (claim_role decoded = Some ''Doctor'' \<longrightarrow>
           authorization [''doctor''] ref_libs test_env 10 ?req =
             NextErr (not_authorized (Some ''Doctor''))) \<and>
        authorization [] ref_libs test_env 10 ?req = NextErr (not_authorized (claim_role decoded))"
    by (rule conjunct1)
  from this [rule_format, OF pre] r
  have "authorization [''doctor''] ref_libs test_env 10 ?req =
          NextErr (not_authorized (Some ''Doctor''))"
    and "authorization [] ref_libs test_env 10 ?req = NextErr (not_authorized (Some ''Doctor''))"
    by simp_all
  then show ?thesis by (simp add: statusCode_not_authorized)
qed

subsection \<open>The access token verifier\<close>

lemma verifyToken_decoded:
  assumes "headers_authorization req = Some h"
    and "js_index (js_split CHR '' '' h) 1 = Some tok"
    and "tok \<noteq> []"
  shows "verifyToken lib e now req =
           (case jwt_verify lib tok (JWT_ACCESS_SECRET e) now of
              Inl err \<Rightarrow>
                NextErr (createError ''invalid access token'' 403
                  \<lparr> opt_code = None,
                    opt_details = Some (DText ''Token is  expired or invalid'') \<rparr>)
            | Inr decoded \<Rightarrow> Next (req \<lparr> user := Some decoded \<rparr>))"
  using assms by (simp add: verifyToken_def)

lemma verifyToken_no_header:
  "headers_authorization req = None \<Longrightarrow>
   verifyToken lib e now req = NextErr (createError ''Access token is required'' 401 no_options)"
  by (simp add: verifyToken_def)

text \<open>
  Claim C6. With a jsonwebtoken that keeps its contract, a token made by
  \<open>generateAccessToken\<close> for any id and role verifies against the access secret at every
  instant before the configured expiry has elapsed, with the id and role it was issued
  for; sent as \<open>Bearer <token>\<close>, \<open>verifyToken\<close> attaches exactly these claims and
  continues.
\<close>

theorem access_token_round_trip:
  assumes "jwt_contract lib"
    and "t' < t + JWT_ACCESS_EXPIRES_IN e"
  shows "\<exists>c. jwt_verify lib (generateAccessToken lib e t i r) (JWT_ACCESS_SECRET e) t' = Inr c \<and>
             claim_id c = i \<and> claim_role c = r \<and>
             verifyToken lib e t'
               (req \<lparr> headers_authorization :=
                        Some (''Bearer '' @ generateAccessToken lib e t i r) \<rparr>) =
             Next (req \<lparr> headers_authorization :=
                           Some (''Bearer '' @ generateAccessToken lib e t i r),
                         user := Some c \<rparr>)"
proof -
  let ?p = "\<lparr> payload_id = i, payload_role = r \<rparr>"
  let ?tok = "generateAccessToken lib e t i r"
  let ?c = "signed_claims ?p (JWT_ACCESS_EXPIRES_IN e) t"
  let ?req = "req \<lparr> headers_authorization := Some (''Bearer '' @ ?tok) \<rparr>"
  from assms(1) have v0:
    "t' < t + JWT_ACCESS_EXPIRES_IN e \<longrightarrow>
       jwt_verify lib (jwt_sign lib ?p (JWT_ACCESS_SECRET e) (JWT_ACCESS_EXPIRES_IN e) t)
         (JWT_ACCESS_SECRET e) t' = Inr ?c"
    and ne0: "jwt_sign lib ?p (JWT_ACCESS_SECRET e) (JWT_ACCESS_EXPIRES_IN e) t \<noteq> []"
    and sp0: "CHR '' '' \<notin> set (jwt_sign lib ?p (JWT_ACCESS_SECRET e) (JWT_ACCESS_EXPIRES_IN e) t)"
    unfolding jwt_contract_def by blast+
  from v0 assms(2) have v: "jwt_verify lib ?tok (JWT_ACCESS_SECRET e) t' = Inr ?c"
    by (simp add: generateAccessToken_def)
  from ne0 have ne: "?tok \<noteq> []" by (simp add: generateAccessToken_def)
  from sp0 have sp: "CHR '' '' \<notin> set ?tok" by (simp add: generateAccessToken_def)
  have h: "headers_authorization ?req = Some (''Bearer '' @ ?tok)" by simp
  have "verifyToken lib e t' ?req = Next (?req \<lparr> user := Some ?c \<rparr>)"
    using verifyToken_decoded [OF h bearer_split [OF sp] ne, of lib e t'] v by simp
  moreover have "claim_id ?c = i" and "claim_role ?c = r"
    by (simp_all add: signed_claims_def)
  ultimately show ?thesis using v by auto
qed

theorem access_token_round_trip_witness:
  "\<exists>c. jwt_verify ref_libs (generateAccessToken ref_libs test_env 100 ''u1'' (Some ''doctor''))
          (JWT_ACCESS_SECRET test_env) 999 = Inr c \<and>
       claim_id c = ''u1'' \<and> claim_role c = Some ''doctor'' \<and>
       verifyToken ref_libs test_env 999
         \<lparr> headers_authorization =
             Some (''Bearer '' @ generateAccessToken ref_libs test_env 100 ''u1'' (Some ''doctor'')),
           cookies_refreshToken = None, user = None \<rparr> =
       Next \<lparr> headers_authorization =
               Some (''Bearer '' @ generateAccessToken ref_libs test_env 100 ''u1'' (Some ''doctor'')),
             cookies_refreshToken = None, user = Some c \<rparr>"
proof -
  have "(999::nat) < 100 + JWT_ACCESS_EXPIRES_IN test_env" by (simp add: test_env_def)
  from access_token_round_trip [OF ref_libs_contract this,
      of "''u1''" "Some ''doctor''"
         "\<lparr> headers_authorization = None, cookies_refreshToken = None, user = None \<rparr>"]
  show ?thesis by simp
qed

text \<open>
  Claim C3, at the inputs where the code departs from it. The verifier never looks at
  the scheme word of the header: it takes whatever follows the first space. A header
  \<open>Basic abc\<close> is answered 403 (not 401), and a valid token sent under another scheme
  word is accepted.
\<close>

theorem verifyToken_ignores_scheme:
  "verifyToken ref_libs test_env 10
     \<lparr> headers_authorization = Some ''Basic abc'', cookies_refreshToken = None, user = None \<rparr> =
   NextErr (createError ''invalid access token'' 403
     \<lparr> opt_code = None, opt_details = Some (DText ''Token is  expired or invalid'') \<rparr>) \<and>
   statusCode (createError ''invalid access token'' 403
     \<lparr> opt_code = None, opt_details = Some (DText ''Token is  expired or invalid'') \<rparr>) = 403 \<and>
   verifyToken ref_libs test_env 10
     \<lparr> headers_authorization =
         Some (''Token '' @ generateAccessToken ref_libs test_env 0 ''u1'' (Some ''doctor'')),
       cookies_refreshToken = None, user = None \<rparr> =
   Next \<lparr> headers_authorization =
           Some (''Token '' @ generateAccessToken ref_libs test_env 0 ''u1'' (Some ''doctor'')),
         cookies_refreshToken = None,
         user = Some \<lparr> claim_id = ''u1'', claim_role = Some ''doctor'', claim_iat = 0,
                       claim_exp = 900 \<rparr> \<rparr>"
proof (intro conjI)
  have "ref_verify ''abc'' ''access'' 10 = Inl (JsonWebTokenError ''jwt malformed'')"
    by (simp add: ref_verify_def)
  then show "verifyToken ref_libs test_env 10
     \<lparr> headers_authorization = Some ''Basic abc'', cookies_refreshToken = None, user = None \<rparr> =
   NextErr (createError ''invalid access token'' 403
     \<lparr> opt_code = None, opt_details = Some (DText ''Token is  expired or invalid'') \<rparr>)"
    by (simp add: verifyToken_def ref_libs_def test_env_def)
next
  show "statusCode (createError ''invalid access token'' 403
     \<lparr> opt_code = None, opt_details = Some (DText ''Token is  expired or invalid'') \<rparr>) = 403"
    by (rule statusCode_createError)
next
  let ?tok = "generateAccessToken ref_libs test_env 0 ''u1'' (Some ''doctor'')"
  let ?req = "\<lparr> headers_authorization = Some (''Token '' @ ?tok),
                 cookies_refreshToken = None, user = None \<rparr>"
  have sp: "CHR '' '' \<notin> set ?tok" by (rule ref_access_token_no_space)
  have "js_split CHR '' '' (''Token'' @ CHR '' '' # ?tok) = ''Token'' # js_split CHR '' '' ?tok"
    by (rule js_split_append) simp
  with sp have t: "js_index (js_split CHR '' '' (''Token '' @ ?tok)) 1 = Some ?tok"
    by (simp add: js_split_no_sep)
  have ne: "?tok \<noteq> []"
    by (simp add: generateAccessToken_def ref_libs_def ref_sign_nonempty)
  have v: "jwt_verify ref_libs ?tok (JWT_ACCESS_SECRET test_env) 10 =
             Inr \<lparr> claim_id = ''u1'', claim_role = Some ''doctor'', claim_iat = 0,
                   claim_exp = 0 + JWT_ACCESS_EXPIRES_IN test_env \<rparr>"
    by (rule ref_access_token_verifies) (simp add: test_env_def)
  have h: "headers_authorization ?req = Some (''Token '' @ ?tok)" by simp
  show "verifyToken ref_libs test_env 10 ?req =
          Next \<lparr> headers_authorization = Some (''Token '' @ ?tok),
                 cookies_refreshToken = None,
                 user = Some \<lparr> claim_id = ''u1'', claim_role = Some ''doctor'', claim_iat = 0,
                               claim_exp = 900 \<rparr> \<rparr>"
    using verifyToken_decoded [OF h t ne, of ref_libs test_env 10] v
    by (simp add: test_env_def)
qed

text \<open>
  Claim C1, at an input where the code departs from it. The guard does not read the
  identity on the request: it splits the header and verifies the token again. A request
  that carries no identity and a valid doctor's token is let through by
  \<open>authorization ["doctor"]\<close>, where the claim has 401.
\<close>

theorem authorization_reads_header_not_identity:
  "authorization [''doctor''] ref_libs test_env 10
     \<lparr> headers_authorization =
         Some (''Bearer '' @ generateAccessToken ref_libs test_env 0 ''u1'' (Some ''doctor'')),
       cookies_refreshToken = None, user = None \<rparr> =
   Next \<lparr> headers_authorization =
           Some (''Bearer '' @ generateAccessToken ref_libs test_env 0 ''u1'' (Some ''doctor'')),
         cookies_refreshToken = None, user = None \<rparr>"
proof -
  let ?tok = "generateAccessToken ref_libs test_env 0 ''u1'' (Some ''doctor'')"
  let ?req = "\<lparr> headers_authorization = Some (''Bearer '' @ ?tok),
                 cookies_refreshToken = None, user = None \<rparr>"
  have h: "headers_authorization ?req = Some (''Bearer '' @ ?tok)" by simp
  have t: "js_index (js_split CHR '' '' (''Bearer '' @ ?tok)) 1 = Some ?tok"
    by (rule bearer_split) (rule ref_access_token_no_space)
  have v: "jwt_verify ref_libs ?tok (JWT_ACCESS_SECRET test_env) 10 =
             Inr \<lparr> claim_id = ''u1'', claim_role = Some ''doctor'', claim_iat = 0,
                   claim_exp = 0 + JWT_ACCESS_EXPIRES_IN test_env \<rparr>"
    by (rule ref_access_token_verifies) (simp add: test_env_def)
  have ne: "?tok \<noteq> []"
    by (simp add: generateAccessToken_def ref_libs_def ref_sign_nonempty)
  show ?thesis
    using authorization_decoded [OF h t ne v, of "[''doctor'']"] by (simp add: js_includes_def)
qed

subsection \<open>Login\<close>

lemma statusCode_invalid_credentials: "statusCode (invalid_credentials em) = 401"
  by (simp add: invalid_credentials_def createError_def)

lemma message_invalid_credentials: "message (invalid_credentials em) = ''Invalid email or password''"
  by (simp add: invalid_credentials_def createError_def)

lemma code_invalid_credentials: "code (invalid_credentials em) = Some ''INVALID_CREDENTIALS''"
  by (simp add: invalid_credentials_def createError_def)

lemma status_invalid_credentials: "status (invalid_credentials em) = ''fail''"
  by (simp add: invalid_credentials_def createError_def leading_digit_401)

lemma login_unknown_email:
  "findOne store (login_email b) = None \<Longrightarrow>
   login lib e now store b = NextErr (invalid_credentials (login_email b))"
  by (simp add: login_def)

lemma login_wrong_password:
  "findOne store (login_email b) = Some u \<Longrightarrow> password u = Some h \<Longrightarrow>
   \<not> bcrypt_compare lib (login_password b) h \<Longrightarrow>
   login lib e now store b = NextErr (invalid_credentials (login_email b))"
  by (simp add: login_def)

text \<open>
  Claim C4. For every collection of users, a login whose e-mail matches no user and a
  login whose e-mail matches a user but whose password does not verify against the stored
  hash both end in \<open>next(err)\<close> with status 401 and the message
  "Invalid email or password": the two errors agree in status code, status, message and
  code, and the rendered responses agree in HTTP status and message. Each error is the
  same function of the e-mail that was sent, which it echoes in its details.
\<close>

theorem login_failures_indistinguishable:
  assumes "findOne store (login_email b1) = None"
    and "findOne store (login_email b2) = Some u"
    and "password u = Some h"
    and "\<not> bcrypt_compare lib (login_password b2) h"
  shows "\<exists>e1 e2. login lib e now store b1 = NextErr e1 \<and> login lib e now store b2 = NextErr e2 \<and>
           e1 = invalid_credentials (login_email b1) \<and>
           e2 = invalid_credentials (login_email b2) \<and>
           statusCode e1 = 401 \<and> statusCode e2 = 401 \<and>
           message e1 = ''Invalid email or password'' \<and>
           message e2 = ''Invalid email or password'' \<and>
           status e1 = status e2 \<and> code e1 = code e2 \<and>
           http_status (errorHandler e1) = 401 \<and> http_status (errorHandler e2) = 401 \<and>
           map_option body_message (json (errorHandler e1)) =
             map_option body_message (json (errorHandler e2))"
proof -
  let ?e1 = "invalid_credentials (login_email b1)"
  let ?e2 = "invalid_credentials (login_email b2)"
  have 1: "login lib e now store b1 = NextErr ?e1"
    by (rule login_unknown_email [OF assms(1)])
  have 2: "login lib e now store b2 = NextErr ?e2"
    by (rule login_wrong_password [OF assms(2) assms(3) assms(4)])
  have 3: "map_option body_message (json (errorHandler ?e1)) =
             map_option body_message (json (errorHandler ?e2))"
    by (simp add: errorHandler_def message_invalid_credentials)
  show ?thesis
    using 1 2 3
    by (simp add: statusCode_invalid_credentials message_invalid_credentials
          status_invalid_credentials code_invalid_credentials http_status_errorHandler)
qed

theorem login_failures_indistinguishable_witness:
  "\<exists>e1 e2.
     login ref_libs test_env 5
       [\<lparr> uid = ''u1'', name = ''Ann'', email = ''ann@x.com'',
          password = Some ''$2b$Passw0rd!'', google = False, role = Some ''doctor'',
          createdAt = 0 \<rparr>]
       \<lparr> login_email = ''bob@x.com'', login_password = ''Passw0rd!'' \<rparr> = NextErr e1 \<and>
     login ref_libs test_env 5
       [\<lparr> uid = ''u1'', name = ''Ann'', email = ''ann@x.com'',
          password = Some ''$2b$Passw0rd!'', google = False, role = Some ''doctor'',
          createdAt = 0 \<rparr>]
       \<lparr> login_email = ''ann@x.com'', login_password = ''wrong'' \<rparr> = NextErr e2 \<and>
     statusCode e1 = 401 \<and> statusCode e2 = 401 \<and>
     message e1 = ''Invalid email or password'' \<and> message e2 = ''Invalid email or password''"
proof -
  let ?ann = "\<lparr> uid = ''u1'', name = ''Ann'', email = ''ann@x.com'',
                 password = Some ''$2b$Passw0rd!'', google = False, role = Some ''doctor'',
                 createdAt = 0 \<rparr>"
  let ?b1 = "\<lparr> login_email = ''bob@x.com'', login_password = ''Passw0rd!'' \<rparr>"
  let ?b2 = "\<lparr> login_email = ''ann@x.com'', login_password = ''wrong'' \<rparr>"
  have a: "findOne [?ann] (login_email ?b1) = None" by (simp add: findOne_def)
  have b: "findOne [?ann] (login_email ?b2) = Some ?ann" by (simp add: findOne_def)
  have c: "password ?ann = Some ''$2b$Passw0rd!''" by simp
  have d: "\<not> bcrypt_compare ref_libs (login_password ?b2) ''$2b$Passw0rd!''"
    by (simp add: ref_libs_def)
  from login_failures_indistinguishable [OF a b c d, of test_env 5]
  show ?thesis by blast
qed

subsection \<open>Refreshing the access token\<close>

lemma refreshToken_missing:
  "falsy (cookies_refreshToken req) \<Longrightarrow>
   refreshToken lib e now req = NextErr (createError ''Refresh token is required'' 401 no_options)"
  by (cases "cookies_refreshToken req") (simp_all add: refreshToken_def)

lemma refreshToken_rejected:
  "cookies_refreshToken req = Some t \<Longrightarrow> t \<noteq> [] \<Longrightarrow>
   jwt_verify lib t (JWT_REFRESH_SECRET e) now = Inl x \<Longrightarrow>
   refreshToken lib e now req =
     NextErr (createError ''Refresh token is expired , your session is ended , login again !''
       403 no_options)"
  by (simp add: refreshToken_def)

lemma refreshToken_accepted:
  "cookies_refreshToken req = Some t \<Longrightarrow> t \<noteq> [] \<Longrightarrow>
   jwt_verify lib t (JWT_REFRESH_SECRET e) now = Inr d \<Longrightarrow>
   refreshToken lib e now req =
     Responded (sendSuccess 200 ''Token refreshed successfully''
       (RefreshData (generateAccessToken lib e now (claim_id d) (claim_role d))))"
  by (simp add: refreshToken_def)

lemma contract_access_token:
  assumes "jwt_contract lib" and "t' < t + JWT_ACCESS_EXPIRES_IN e"
  shows "jwt_verify lib (generateAccessToken lib e t i r) (JWT_ACCESS_SECRET e) t' =
           Inr \<lparr> claim_id = i, claim_role = r, claim_iat = t,
                 claim_exp = t + JWT_ACCESS_EXPIRES_IN e \<rparr>"
proof -
  from assms(1) have
    "t' < t + JWT_ACCESS_EXPIRES_IN e \<longrightarrow>
       jwt_verify lib (jwt_sign lib \<lparr> payload_id = i, payload_role = r \<rparr> (JWT_ACCESS_SECRET e)
         (JWT_ACCESS_EXPIRES_IN e) t) (JWT_ACCESS_SECRET e) t' =
       Inr (signed_claims \<lparr> payload_id = i, payload_role = r \<rparr> (JWT_ACCESS_EXPIRES_IN e) t)"
    unfolding jwt_contract_def by blast
  with assms(2) show ?thesis by (simp add: generateAccessToken_def signed_claims_def)
qed

text \<open>
  Claim C5. \<open>refreshToken\<close> ends in a 401 error when the cookie is absent (or empty), in
  a 403 error when the presented token does not verify against the refresh secret, whatever
  the reason, and otherwise writes a response of status 200 whose JSON body is the success
  envelope with \<open>data = {accessToken}\<close>, the access token signed for the id and role of
  the presented token's claims (no cookie is set); with a jsonwebtoken that keeps its contract the new token
  verifies, until the access expiry, to that same id and role.
\<close>

theorem refreshToken_outcomes:
  "(falsy (cookies_refreshToken req) \<longrightarrow>
      (\<exists>err. refreshToken lib e now req = NextErr err \<and> statusCode err = 401 \<and>
             http_status (errorHandler err) = 401)) \<and>
   (\<forall>t x. cookies_refreshToken req = Some t \<and> t \<noteq> [] \<and>
          jwt_verify lib t (JWT_REFRESH_SECRET e) now = Inl x \<longrightarrow>
      (\<exists>err. refreshToken lib e now req = NextErr err \<and> statusCode err = 403 \<and>
             http_status (errorHandler err) = 403)) \<and>
   (\<forall>t d. cookies_refreshToken req = Some t \<and> t \<noteq> [] \<and>
          jwt_verify lib t (JWT_REFRESH_SECRET e) now = Inr d \<longrightarrow>
      (\<exists>tok r. refreshToken lib e now req = Responded r \<and>
             http_status r = 200 \<and>
             json r = Some \<lparr> success = True, body_status = ''success'',
                             body_message = ''Token refreshed successfully'',
                             body_code = None, body_details = None,
                             body_data = RefreshData tok \<rparr> \<and>
             set_cookies r = [] \<and> redirect r = None \<and>
             tok = jwt_sign lib \<lparr> payload_id = claim_id d, payload_role = claim_role d \<rparr>
                     (JWT_ACCESS_SECRET e) (JWT_ACCESS_EXPIRES_IN e) now \<and>
             (jwt_contract lib \<longrightarrow>
                (\<forall>t'. t' < now + JWT_ACCESS_EXPIRES_IN e \<longrightarrow>
                   (\<exists>c. jwt_verify lib tok (JWT_ACCESS_SECRET e) t' = Inr c \<and>
                        claim_id c = claim_id d \<and> claim_role c = claim_role d)))))"
proof (intro conjI allI impI)
  assume "falsy (cookies_refreshToken req)"
  from refreshToken_missing [OF this, of lib e now]
  show "\<exists>err. refreshToken lib e now req = NextErr err \<and> statusCode err = 401 \<and>
             http_status (errorHandler err) = 401"
    by (simp add: statusCode_createError http_status_errorHandler)
next
  fix t x
  assume "cookies_refreshToken req = Some t \<and> t \<noteq> [] \<and>
          jwt_verify lib t (JWT_REFRESH_SECRET e) now = Inl x"
  then have "refreshToken lib e now req =
     NextErr (createError ''Refresh token is expired , your session is ended , login again !''
       403 no_options)"
    by (blast intro: refreshToken_rejected)
  then show "\<exists>err. refreshToken lib e now req = NextErr err \<and> statusCode err = 403 \<and>
             http_status (errorHandler err) = 403"
    by (simp add: statusCode_createError http_status_errorHandler)
next
  fix t d
  assume a: "cookies_refreshToken req = Some t \<and> t \<noteq> [] \<and>
          jwt_verify lib t (JWT_REFRESH_SECRET e) now = Inr d"
  let ?tok = "generateAccessToken lib e now (claim_id d) (claim_role d)"
  from a have 1: "refreshToken lib e now req =
     Responded (sendSuccess 200 ''Token refreshed successfully'' (RefreshData ?tok))"
    by (blast intro: refreshToken_accepted)
  let ?r = "sendSuccess 200 ''Token refreshed successfully'' (RefreshData ?tok)"
  have 2: "http_status ?r = 200 \<and>
           json ?r = Some \<lparr> success = True, body_status = ''success'',
                             body_message = ''Token refreshed successfully'',
                             body_code = None, body_details = None,
                             body_data = RefreshData ?tok \<rparr> \<and>
           set_cookies ?r = [] \<and> redirect ?r = None"
    by (simp add: sendSuccess_def)
  have 3: "?tok = jwt_sign lib \<lparr> payload_id = claim_id d, payload_role = claim_role d \<rparr>
                     (JWT_ACCESS_SECRET e) (JWT_ACCESS_EXPIRES_IN e) now"
    by (simp add: generateAccessToken_def)
  have 4: "jwt_contract lib \<longrightarrow>
                (\<forall>t'. t' < now + JWT_ACCESS_EXPIRES_IN e \<longrightarrow>
                   (\<exists>c. jwt_verify lib ?tok (JWT_ACCESS_SECRET e) t' = Inr c \<and>
                        claim_id c = claim_id d \<and> claim_role c = claim_role d))"
    by (auto simp: contract_access_token)
  from 1 2 3 4
  show "\<exists>tok r. refreshToken lib e now req = Responded r \<and>
             http_status r = 200 \<and>
             json r = Some \<lparr> success = True, body_status = ''success'',
                             body_message = ''Token refreshed successfully'',
                             body_code = None, body_details = None,
                             body_data = RefreshData tok \<rparr> \<and>
             set_cookies r = [] \<and> redirect r = None \<and>
             tok = jwt_sign lib \<lparr> payload_id = claim_id d, payload_role = claim_role d \<rparr>
                     (JWT_ACCESS_SECRET e) (JWT_ACCESS_EXPIRES_IN e) now \<and>
             (jwt_contract lib \<longrightarrow>
                (\<forall>t'. t' < now + JWT_ACCESS_EXPIRES_IN e \<longrightarrow>
                   (\<exists>c. jwt_verify lib tok (JWT_ACCESS_SECRET e) t' = Inr c \<and>
                        claim_id c = claim_id d \<and> claim_role c = claim_role d)))"
    by blast
qed

lemma ref_refresh_token_verifies:
  "t' < t + JWT_REFRESH_EXPIRES_IN e \<Longrightarrow>
   jwt_verify ref_libs (generateRefreshToken ref_libs e t i r) (JWT_REFRESH_SECRET e) t' =
     Inr \<lparr> claim_id = i, claim_role = r, claim_iat = t, claim_exp = t + JWT_REFRESH_EXPIRES_IN e \<rparr>"
  using ref_round_trip [of t' t "JWT_REFRESH_EXPIRES_IN e" "\<lparr> payload_id = i, payload_role = r \<rparr>" "JWT_REFRESH_SECRET e"]
  by (simp add: generateRefreshToken_def ref_libs_def signed_claims_def)

theorem refreshToken_outcomes_witness:
  "(\<exists>err. refreshToken ref_libs test_env 10
            \<lparr> headers_authorization = None, cookies_refreshToken = None, user = None \<rparr> =
          NextErr err \<and> statusCode err = 401) \<and>
   (\<exists>err. refreshToken ref_libs test_env 10
            \<lparr> headers_authorization = None, cookies_refreshToken = Some ''abc'', user = None \<rparr> =
          NextErr err \<and> statusCode err = 403) \<and>
   (\<exists>tok c. refreshToken ref_libs test_env 10
            \<lparr> headers_authorization = None,
              cookies_refreshToken =
                Some (generateRefreshToken ref_libs test_env 0 ''u1'' (Some ''doctor'')),
              user = None \<rparr> =
          Responded
            \<lparr> http_status = 200,
              json = Some \<lparr> success = True, body_status = ''success'',
                            body_message = ''Token refreshed successfully'',
                            body_code = None, body_details = None,
                            body_data = RefreshData tok \<rparr>,
              set_cookies = [], redirect = None \<rparr> \<and>
          jwt_verify ref_libs tok (JWT_ACCESS_SECRET test_env) 20 = Inr c \<and>
          claim_id c = ''u1'' \<and> claim_role c = Some ''doctor'')"
proof (intro conjI)
  let ?r1 = "\<lparr> headers_authorization = None, cookies_refreshToken = None, user = None \<rparr>"
  have "falsy (cookies_refreshToken ?r1)" by simp
  with refreshToken_outcomes [of ?r1 ref_libs test_env 10]
  show "\<exists>err. refreshToken ref_libs test_env 10 ?r1 = NextErr err \<and> statusCode err = 401"
    by blast
next
  let ?r2 = "\<lparr> headers_authorization = None, cookies_refreshToken = Some ''abc'', user = None \<rparr>"
  have "ref_verify ''abc'' ''refresh'' 10 = Inl (JsonWebTokenError ''jwt malformed'')"
    by (simp add: ref_verify_def)
  then have "cookies_refreshToken ?r2 = Some ''abc'' \<and> ''abc'' \<noteq> [] \<and>
      jwt_verify ref_libs ''abc'' (JWT_REFRESH_SECRET test_env) 10 =
        Inl (JsonWebTokenError ''jwt malformed'')"
    by (simp add: ref_libs_def test_env_def)
  with refreshToken_outcomes [of ?r2 ref_libs test_env 10]
  show "\<exists>err. refreshToken ref_libs test_env 10 ?r2 = NextErr err \<and> statusCode err = 403"
    by blast
next
  let ?rt = "generateRefreshToken ref_libs test_env 0 ''u1'' (Some ''doctor'')"
  let ?r3 = "\<lparr> headers_authorization = None, cookies_refreshToken = Some ?rt, user = None \<rparr>"
  let ?d = "\<lparr> claim_id = ''u1'', claim_role = Some ''doctor'', claim_iat = 0,
               claim_exp = 0 + JWT_REFRESH_EXPIRES_IN test_env \<rparr>"
  have v: "jwt_verify ref_libs ?rt (JWT_REFRESH_SECRET test_env) 10 = Inr ?d"
    by (rule ref_refresh_token_verifies) (simp add: test_env_def)
  have ne: "?rt \<noteq> []"
    by (simp add: generateRefreshToken_def ref_libs_def ref_sign_nonempty)
  have lt: "(20::nat) < 10 + JWT_ACCESS_EXPIRES_IN test_env" by (simp add: test_env_def)
  from v ne have "cookies_refreshToken ?r3 = Some ?rt \<and> ?rt \<noteq> [] \<and>
      jwt_verify ref_libs ?rt (JWT_REFRESH_SECRET test_env) 10 = Inr ?d"
    by simp
  with refreshToken_outcomes [of ?r3 ref_libs test_env 10] ref_libs_contract lt
  obtain tok r where
    0: "refreshToken ref_libs test_env 10 ?r3 = Responded r"
    and f: "http_status r = 200"
       "json r = Some \<lparr> success = True, body_status = ''success'',
                         body_message = ''Token refreshed successfully'',
                         body_code = None, body_details = None,
                         body_data = RefreshData tok \<rparr>"
       "set_cookies r = []" "redirect r = None"
    and 2: "\<exists>c. jwt_verify ref_libs tok (JWT_ACCESS_SECRET test_env) 20 = Inr c \<and>
                claim_id c = claim_id ?d \<and> claim_role c = claim_role ?d"
    by blast
  from f have "r = \<lparr> http_status = 200,
              json = Some \<lparr> success = True, body_status = ''success'',
                            body_message = ''Token refreshed successfully'',
                            body_code = None, body_details = None,
                            body_data = RefreshData tok \<rparr>,
              set_cookies = [], redirect = None \<rparr>"
    by (cases r) simp
  with 0 have 1: "refreshToken ref_libs test_env 10 ?r3 =
          Responded
            \<lparr> http_status = 200,
              json = Some \<lparr> success = True, body_status = ''success'',
                            body_message = ''Token refreshed successfully'',
                            body_code = None, body_details = None,
                            body_data = RefreshData tok \<rparr>,
              set_cookies = [], redirect = None \<rparr>"
    by simp
  from 2 obtain c where "jwt_verify ref_libs tok (JWT_ACCESS_SECRET test_env) 20 = Inr c"
    and "claim_id c = ''u1''" and "claim_role c = Some ''doctor''"
    by auto
  with 1 show "\<exists>tok c. refreshToken ref_libs test_env 10 ?r3 =
          Responded
            \<lparr> http_status = 200,
              json = Some \<lparr> success = True, body_status = ''success'',
                            body_message = ''Token refreshed successfully'',
                            body_code = None, body_details = None,
                            body_data = RefreshData tok \<rparr>,
              set_cookies = [], redirect = None \<rparr> \<and>
          jwt_verify ref_libs tok (JWT_ACCESS_SECRET test_env) 20 = Inr c \<and>
          claim_id c = ''u1'' \<and> claim_role c = Some ''doctor''"
    by blast
qed

subsection \<open>The refresh-token cookie\<close>

lemma findOne_append:
  "findOne (store @ [u]) em =
     (case findOne store em of Some x \<Rightarrow> Some x
      | None \<Rightarrow> if email u = em then Some u else None)"
  by (induction store) (simp_all add: findOne_def)

lemma login_responded:
  assumes "login lib e now store b = Responded r"
  shows "\<exists>u. findOne store (login_email b) = Some u \<and>
             r = (sendSuccess 200 ''Login successful''
                    (LoginData (generateAccessToken lib e now (uid u) (role u)) (uid u) (name u)
                       (role u)))
                 \<lparr> set_cookies :=
                     [refresh_cookie e (generateRefreshToken lib e now (uid u) (role u))] \<rparr>"
  using assms by (auto simp: login_def Let_def split: option.splits if_splits)

lemma googleCallback_responded:
  assumes "googleCallback lib e now oid store ac = (Responded r, store')"
  shows "\<exists>g u. google_exchange lib ac = Inr g \<and> r = oauth_finish lib e now g u \<and>
               findOne store' (g_email g) = Some u \<and>
               (findOne store (g_email g) = None \<longrightarrow>
                  u = \<lparr> uid = oid, name = g_name g, email = g_email g, password = None,
                        google = True, role = Some ''doctor'', createdAt = now \<rparr>)"
  using assms
  by (auto simp: googleCallback_def Let_def findOne_append
           split: sum.splits option.splits list.splits)

lemma set_cookies_oauth_finish:
  "set_cookies (oauth_finish lib e now g u) =
     [refresh_cookie e (generateRefreshToken lib e now (uid u) (role u))]"
  by (simp add: oauth_finish_def Let_def)

text \<open>
  Claim C8, as the code has it. Every response of \<open>login\<close> and of \<open>googleCallback\<close>
  sets exactly one cookie, named \<open>refreshToken\<close>: HttpOnly, SameSite=Strict, Secure exactly
  when \<open>NODE_ENV\<close> is "production", and with \<open>maxAge\<close> the constant
  \<open>30 * 24 * 60 * 60 * 1000\<close> milliseconds (a Max-Age of 2592000 seconds), whatever the
  configured expiry of the refresh token is.
\<close>

theorem refresh_cookie_fixed_max_age:
  "(\<forall>r. login lib e now store b = Responded r \<longrightarrow>
      (\<exists>tok. set_cookies r =
         [\<lparr> cookie_name = ''refreshToken'', cookie_token = tok, httpOnly = True,
            secure = (NODE_ENV e = Some ''production''), sameSite = ''Strict'',
            maxAge = 2592000000 \<rparr>])) \<and>
   (\<forall>r store'. googleCallback lib e now oid store ac = (Responded r, store') \<longrightarrow>
      (\<exists>tok. set_cookies r =
         [\<lparr> cookie_name = ''refreshToken'', cookie_token = tok, httpOnly = True,
            secure = (NODE_ENV e = Some ''production''), sameSite = ''Strict'',
            maxAge = 2592000000 \<rparr>])) \<and>
   (2592000000 :: nat) div 1000 = 30 * 24 * 60 * 60"
proof (intro conjI allI impI)
  fix r
  assume "login lib e now store b = Responded r"
  from login_responded [OF this]
  show "\<exists>tok. set_cookies r =
         [\<lparr> cookie_name = ''refreshToken'', cookie_token = tok, httpOnly = True,
            secure = (NODE_ENV e = Some ''production''), sameSite = ''Strict'',
            maxAge = 2592000000 \<rparr>]"
    by (auto simp: refresh_cookie_def)
next
  fix r store'
  assume "googleCallback lib e now oid store ac = (Responded r, store')"
  from googleCallback_responded [OF this]
  show "\<exists>tok. set_cookies r =
         [\<lparr> cookie_name = ''refreshToken'', cookie_token = tok, httpOnly = True,
            secure = (NODE_ENV e = Some ''production''), sameSite = ''Strict'',
            maxAge = 2592000000 \<rparr>]"
    by (auto simp: set_cookies_oauth_finish refresh_cookie_def)
next
  show "(2592000000 :: nat) div 1000 = 30 * 24 * 60 * 60" by simp
qed

lemma login_ann:
  "login ref_libs test_env 5
     [\<lparr> uid = ''u1'', name = ''Ann'', email = ''ann@x.com'',
        password = Some ''$2b$Passw0rd!'', google = False, role = Some ''doctor'',
        createdAt = 0 \<rparr>]
     \<lparr> login_email = ''ann@x.com'', login_password = ''Passw0rd!'' \<rparr> =
   Responded
     ((sendSuccess 200 ''Login successful''
         (LoginData (generateAccessToken ref_libs test_env 5 ''u1'' (Some ''doctor'')) ''u1''
            ''Ann'' (Some ''doctor'')))
      \<lparr> set_cookies :=
          [refresh_cookie test_env
             (generateRefreshToken ref_libs test_env 5 ''u1'' (Some ''doctor''))] \<rparr>)"
  by (simp add: login_def findOne_def ref_libs_def Let_def)

lemma googleCallback_zoe:
  "googleCallback ref_libs test_env 5 ''g1'' [] ''zoe'' =
     (Responded (oauth_finish ref_libs test_env 5 \<lparr> g_name = ''zoe'', g_email = ''zoe@gmail.com'' \<rparr>
        \<lparr> uid = ''g1'', name = ''zoe'', email = ''zoe@gmail.com'', password = None,
          google = True, role = Some ''doctor'', createdAt = 5 \<rparr>),
      [\<lparr> uid = ''g1'', name = ''zoe'', email = ''zoe@gmail.com'', password = None,
         google = True, role = Some ''doctor'', createdAt = 5 \<rparr>])"
  by (simp add: googleCallback_def findOne_def ref_libs_def Let_def mongoose_validate_def)

theorem refresh_cookie_fixed_max_age_witness:
  "(\<exists>tok. set_cookies
      ((sendSuccess 200 ''Login successful''
         (LoginData (generateAccessToken ref_libs test_env 5 ''u1'' (Some ''doctor'')) ''u1''
            ''Ann'' (Some ''doctor'')))
       \<lparr> set_cookies :=
          [refresh_cookie test_env
             (generateRefreshToken ref_libs test_env 5 ''u1'' (Some ''doctor''))] \<rparr>) =
      [\<lparr> cookie_name = ''refreshToken'', cookie_token = tok, httpOnly = True,
         secure = (NODE_ENV test_env = Some ''production''), sameSite = ''Strict'',
         maxAge = 2592000000 \<rparr>]) \<and>
   (\<exists>tok. set_cookies
      (oauth_finish ref_libs test_env 5 \<lparr> g_name = ''zoe'', g_email = ''zoe@gmail.com'' \<rparr>
        \<lparr> uid = ''g1'', name = ''zoe'', email = ''zoe@gmail.com'', password = None,
          google = True, role = Some ''doctor'', createdAt = 5 \<rparr>) =
      [\<lparr> cookie_name = ''refreshToken'', cookie_token = tok, httpOnly = True,
         secure = (NODE_ENV test_env = Some ''production''), sameSite = ''Strict'',
         maxAge = 2592000000 \<rparr>])"
  using refresh_cookie_fixed_max_age
          [of ref_libs test_env 5
              "[\<lparr> uid = ''u1'', name = ''Ann'', email = ''ann@x.com'',
                  password = Some ''$2b$Passw0rd!'', google = False, role = Some ''doctor'',
                  createdAt = 0 \<rparr>]"
              "\<lparr> login_email = ''ann@x.com'', login_password = ''Passw0rd!'' \<rparr>"]
        refresh_cookie_fixed_max_age
          [of ref_libs test_env 5 "[]" _ "''g1''" "''zoe''"]
        login_ann googleCallback_zoe
  by blast

text \<open>
  Claim C8 as stated fails: with the refresh expiry configured to seven days
  (604800 seconds), the cookie of a successful login still has a \<open>maxAge\<close> of
  2592000000 milliseconds, thirty days.
\<close>

theorem refresh_cookie_max_age_counterexample:
  "(case login ref_libs test_env 5
           [\<lparr> uid = ''u1'', name = ''Ann'', email = ''ann@x.com'',
              password = Some ''$2b$Passw0rd!'', google = False, role = Some ''doctor'',
              createdAt = 0 \<rparr>]
           \<lparr> login_email = ''ann@x.com'', login_password = ''Passw0rd!'' \<rparr> of
      Responded r \<Rightarrow> map maxAge (set_cookies r)
    | _ \<Rightarrow> []) = [2592000000] \<and>
   1000 * JWT_REFRESH_EXPIRES_IN test_env = 604800000 \<and>
   (2592000000 :: nat) \<noteq> 604800000"
proof (intro conjI)
  show "(case login ref_libs test_env 5
           [\<lparr> uid = ''u1'', name = ''Ann'', email = ''ann@x.com'',
              password = Some ''$2b$Passw0rd!'', google = False, role = Some ''doctor'',
              createdAt = 0 \<rparr>]
           \<lparr> login_email = ''ann@x.com'', login_password = ''Passw0rd!'' \<rparr> of
      Responded r \<Rightarrow> map maxAge (set_cookies r)
    | _ \<Rightarrow> []) = [2592000000]"
    by (simp add: login_ann refresh_cookie_def)
  show "1000 * JWT_REFRESH_EXPIRES_IN test_env = 604800000"
    by (simp add: test_env_def)
  show "(2592000000 :: nat) \<noteq> 604800000" by simp
qed

subsection \<open>Login of an identity without a password\<close>

lemma login_no_password:
  "findOne store (login_email b) = Some u \<Longrightarrow> password u = None \<Longrightarrow>
   login lib e now store b = Escaped BcryptIllegalArguments"
  by (simp add: login_def)

text \<open>
  Claim C10. An identity that \<open>googleCallback\<close> creates has the \<open>google\<close> flag set and
  no password. A login with its e-mail and any password reaches neither 401 branch:
  \<open>bcrypt.compare\<close> is called with \<open>undefined\<close> for the hash, rejects, and the rejection
  leaves the handler, which has no \<open>try\<close>. The same holds for every stored identity
  without a password.
\<close>

theorem login_of_oauth_identity_escapes:
  "(\<forall>u. findOne store (login_email b) = Some u \<and> password u = None \<longrightarrow>
      login lib e now store b = Escaped BcryptIllegalArguments \<and>
      login lib e now store b \<noteq> NextErr (invalid_credentials (login_email b))) \<and>
   (\<forall>g r store'. google_exchange lib ac = Inr g \<and> findOne store (g_email g) = None \<and>
        googleCallback lib e now oid store ac = (Responded r, store') \<longrightarrow>
      (\<exists>u. findOne store' (g_email g) = Some u \<and> google u \<and> password u = None) \<and>
      (\<forall>pw now'. login lib e now' store' \<lparr> login_email = g_email g, login_password = pw \<rparr> =
                   Escaped BcryptIllegalArguments))"
proof (intro conjI allI impI)
  fix u
  assume a: "findOne store (login_email b) = Some u \<and> password u = None"
  then show "login lib e now store b = Escaped BcryptIllegalArguments"
    by (simp add: login_no_password)
  with a show "login lib e now store b \<noteq> NextErr (invalid_credentials (login_email b))"
    by simp
next
  fix g r store'
  assume a: "google_exchange lib ac = Inr g \<and> findOne store (g_email g) = None \<and>
        googleCallback lib e now oid store ac = (Responded r, store')"
  let ?new = "\<lparr> uid = oid, name = g_name g, email = g_email g, password = None,
                 google = True, role = Some ''doctor'', createdAt = now \<rparr>"
  from a googleCallback_responded [of lib e now oid store ac r store']
  have f: "findOne store' (g_email g) = Some ?new" by auto
  then show "\<exists>u. findOne store' (g_email g) = Some u \<and> google u \<and> password u = None"
    by simp
  fix pw now'
  from f show "login lib e now' store' \<lparr> login_email = g_email g, login_password = pw \<rparr> =
                 Escaped BcryptIllegalArguments"
    by (simp add: login_no_password)
qed

theorem login_of_oauth_identity_escapes_witness:
  "googleCallback ref_libs test_env 5 ''g1'' [] ''zoe'' =
     (Responded (oauth_finish ref_libs test_env 5 \<lparr> g_name = ''zoe'', g_email = ''zoe@gmail.com'' \<rparr>
        \<lparr> uid = ''g1'', name = ''zoe'', email = ''zoe@gmail.com'', password = None,
          google = True, role = Some ''doctor'', createdAt = 5 \<rparr>),
      [\<lparr> uid = ''g1'', name = ''zoe'', email = ''zoe@gmail.com'', password = None,
         google = True, role = Some ''doctor'', createdAt = 5 \<rparr>]) \<and>
   login ref_libs test_env 9
     [\<lparr> uid = ''g1'', name = ''zoe'', email = ''zoe@gmail.com'', password = None,
        google = True, role = Some ''doctor'', createdAt = 5 \<rparr>]
     \<lparr> login_email = ''zoe@gmail.com'', login_password = ''Passw0rd!'' \<rparr> =
   Escaped BcryptIllegalArguments"
proof -
  let ?g = "\<lparr> g_name = ''zoe'', g_email = ''zoe@gmail.com'' \<rparr>"
  have x: "google_exchange ref_libs ''zoe'' = Inr ?g" by (simp add: ref_libs_def)
  have n: "findOne [] (g_email ?g) = None" by (simp add: findOne_def)
  from login_of_oauth_identity_escapes
         [of "[]" "\<lparr> login_email = ''zoe@gmail.com'', login_password = ''Passw0rd!'' \<rparr>"
             ref_libs test_env 5 "''zoe''" "''g1''"]
       x n googleCallback_zoe
  have "\<forall>pw now'. login ref_libs test_env now'
          [\<lparr> uid = ''g1'', name = ''zoe'', email = ''zoe@gmail.com'', password = None,
             google = True, role = Some ''doctor'', createdAt = 5 \<rparr>]
          \<lparr> login_email = g_email ?g, login_password = pw \<rparr> = Escaped BcryptIllegalArguments"
    by blast
  then have "login ref_libs test_env 9
     [\<lparr> uid = ''g1'', name = ''zoe'', email = ''zoe@gmail.com'', password = None,
        google = True, role = Some ''doctor'', createdAt = 5 \<rparr>]
     \<lparr> login_email = g_email ?g, login_password = ''Passw0rd!'' \<rparr> = Escaped BcryptIllegalArguments"
    by blast
  with googleCallback_zoe show ?thesis by simp
qed

subsection \<open>Registration\<close>

lemma joi_validate_registerSchema:
  "joi_validate False lib registerSchema b =
     validate_key False lib (registerSchema ! 0) (body_name b) @
     validate_key False lib (registerSchema ! 1) (body_email b) @
     validate_key False lib (registerSchema ! 2) (body_password b) @
     validate_key False lib (registerSchema ! 3) (body_role b)"
  by (simp add: registerSchema_def Let_def)

lemma in_name_errors:
  "v \<in> set (validate_key False lib (registerSchema ! 0) (body_name b)) \<longleftrightarrow>
     fst v = FName \<and> violates lib b v"
  by (cases v; cases "fst v"; cases "snd v"; cases "body_name b")
     (auto simp: registerSchema_def validate_key_def check_string_def)

lemma in_email_errors:
  "v \<in> set (validate_key False lib (registerSchema ! 1) (body_email b)) \<longleftrightarrow>
     fst v = FEmail \<and> violates lib b v"
  by (cases v; cases "fst v"; cases "snd v"; cases "body_email b")
     (auto simp: registerSchema_def validate_key_def check_string_def)

lemma in_password_errors:
  "v \<in> set (validate_key False lib (registerSchema ! 2) (body_password b)) \<longleftrightarrow>
     fst v = FPassword \<and> violates lib b v"
  by (cases v; cases "fst v"; cases "snd v"; cases "body_password b")
     (auto simp: registerSchema_def validate_key_def check_string_def)

lemma in_role_errors:
  "v \<in> set (validate_key False lib (registerSchema ! 3) (body_role b)) \<longleftrightarrow>
     fst v = FRole \<and> violates lib b v"
  by (cases v; cases "fst v"; cases "snd v"; cases "body_role b")
     (auto simp: registerSchema_def validate_key_def check_string_def)

lemma joi_validate_exhaustive:
  "set (joi_validate False lib registerSchema b) = {v. violates lib b v}"
proof -
  have "v \<in> set (joi_validate False lib registerSchema b) \<longleftrightarrow> violates lib b v" for v
    unfolding joi_validate_registerSchema set_append Un_iff
      in_name_errors in_email_errors in_password_errors in_role_errors
    by (cases "fst v") auto
  then show ?thesis by blast
qed

lemma validated_fields:
  assumes "\<forall>v. \<not> violates lib b v"
  shows "\<exists>nm em pw rl. body_name b = Some nm \<and> body_email b = Some em \<and>
           body_password b = Some pw \<and> body_role b = Some rl \<and> nm \<noteq> [] \<and> em \<noteq> [] \<and>
           pw \<noteq> [] \<and> rl \<in> set [''patient'', ''doctor'', ''staff'', ''admin'']"
proof -
  from assms have r: "\<not> violates lib b (FName, AnyRequired)" "\<not> violates lib b (FEmail, AnyRequired)"
    "\<not> violates lib b (FPassword, AnyRequired)" "\<not> violates lib b (FRole, AnyRequired)"
    by blast+
  from assms have e: "\<not> violates lib b (FName, StringEmpty)" "\<not> violates lib b (FEmail, StringEmpty)"
    "\<not> violates lib b (FPassword, StringEmpty)" "\<not> violates lib b (FRole, AnyOnly)"
    by blast+
  from r e show ?thesis by auto
qed

lemma Register_validated:
  assumes "\<forall>v. \<not> violates lib b v"
    and "body_name b = Some nm" and "body_email b = Some em"
    and "body_password b = Some pw" and "body_role b = Some rl"
  shows "Register lib now oid store b =
           (case findOne store em of
              Some existingUser \<Rightarrow>
                (NextErr (createError ''User already exists'' 400
                   \<lparr> opt_code = Some ''USER_EXISTS'', opt_details = Some (DEmail em) \<rparr>), store)
            | None \<Rightarrow>
                (case mongoose_validate
                        \<lparr> uid = oid, name = nm, email = em,
                          password = Some (bcrypt_hash lib pw 10), google = False,
                          role = Some rl, createdAt = now \<rparr> of
                   [] \<Rightarrow>
                     (Responded (sendSuccess 201 ''User registered successfully''
                        (RegisterData oid nm em)),
                      store @ [\<lparr> uid = oid, name = nm, email = em,
                                 password = Some (bcrypt_hash lib pw 10), google = False,
                                 role = Some rl, createdAt = now \<rparr>])
                 | p # ps \<Rightarrow>
                     (NextErr (registration_error (MongooseValidationError (p # ps))), store)))"
proof -
  from assms(1) have "set (joi_validate False lib registerSchema b) = {}"
    by (simp add: joi_validate_exhaustive)
  then have "joi_validate False lib registerSchema b = []" by simp
  with assms(2-5) show ?thesis
    by (simp add: Register_def Let_def split: option.splits list.splits)
qed

lemma Register_invalid:
  assumes "violates lib b v"
  shows "\<exists>vs. Register lib now oid store b =
           (NextErr (createError ''Validation Error'' 400
              \<lparr> opt_code = Some ''VALIDATION_FAILED'', opt_details = Some (DViolations vs) \<rparr>),
            store) \<and>
           set vs = {v. violates lib b v}"
proof (cases "joi_validate False lib registerSchema b")
  case Nil
  with joi_validate_exhaustive [of lib b] have "{v. violates lib b v} = {}" by simp
  with assms show ?thesis by blast
next
  case (Cons x xs)
  with joi_validate_exhaustive [of lib b] show ?thesis
    by (auto simp: Register_def)
qed

lemma Register_responded:
  assumes "Register lib now oid store b = (Responded r, store')"
  shows "\<exists>nm em pw rl. body_name b = Some nm \<and> body_email b = Some em \<and>
           body_password b = Some pw \<and> body_role b = Some rl \<and>
           r = sendSuccess 201 ''User registered successfully'' (RegisterData oid nm em) \<and>
           store' = store @ [\<lparr> uid = oid, name = nm, email = em,
                               password = Some (bcrypt_hash lib pw 10), google = False,
                               role = Some rl, createdAt = now \<rparr>]"
  using assms
  by (auto simp: Register_def Let_def split: list.splits option.splits)

lemma role_rejected_by_model:
  "role u = Some r \<Longrightarrow> r \<notin> {''admin'', ''doctor'', ''staff''} \<Longrightarrow>
   ''role'' \<in> set (mongoose_validate u)"
  by (simp add: mongoose_validate_def)

text \<open>
  Claim C7. A body that violates any rule of the schema ends in the 400
  VALIDATION_FAILED error whose details hold every violated rule and nothing else, the
  collection untouched; a valid body whose e-mail is already stored ends in the 400
  USER_EXISTS error; and whenever \<open>Register\<close> answers, the response has status 201 and
  its JSON body is the success envelope whose data are the new id, the name and the e-mail
  (the data has no other field, and nothing else of the body holds the hash), and it has
  appended one document holding the bcrypt hash of the password, with \<open>google\<close> false.
\<close>

theorem Register_outcomes:
  "((\<exists>v. violates lib b v) \<longrightarrow>
      (\<exists>vs err. Register lib now oid store b = (NextErr err, store) \<and>
         statusCode err = 400 \<and> code err = Some ''VALIDATION_FAILED'' \<and>
         details err = Some (DViolations vs) \<and> set vs = {v. violates lib b v})) \<and>
   (\<forall>em u. (\<forall>v. \<not> violates lib b v) \<and> body_email b = Some em \<and> findOne store em = Some u \<longrightarrow>
      (\<exists>err. Register lib now oid store b = (NextErr err, store) \<and>
         statusCode err = 400 \<and> code err = Some ''USER_EXISTS'')) \<and>
   (\<forall>r store'. Register lib now oid store b = (Responded r, store') \<longrightarrow>
      (\<exists>nm em pw rl. body_name b = Some nm \<and> body_email b = Some em \<and>
         body_password b = Some pw \<and> body_role b = Some rl \<and>
         http_status r = 201 \<and>
         json r = Some \<lparr> success = True, body_status = ''success'',
                         body_message = ''User registered successfully'',
                         body_code = None, body_details = None,
                         body_data = RegisterData oid nm em \<rparr> \<and>
         set_cookies r = [] \<and> redirect r = None \<and>
         store' = store @ [\<lparr> uid = oid, name = nm, email = em,
                             password = Some (bcrypt_hash lib pw 10), google = False,
                             role = Some rl, createdAt = now \<rparr>]))"
proof (intro conjI allI impI)
  assume "\<exists>v. violates lib b v"
  then obtain v where "violates lib b v" ..
  from Register_invalid [OF this, of now oid store]
  obtain vs where 1: "Register lib now oid store b =
           (NextErr (createError ''Validation Error'' 400
              \<lparr> opt_code = Some ''VALIDATION_FAILED'', opt_details = Some (DViolations vs) \<rparr>),
            store)"
    and 2: "set vs = {v. violates lib b v}"
    by blast
  let ?err = "createError ''Validation Error'' 400
              \<lparr> opt_code = Some ''VALIDATION_FAILED'', opt_details = Some (DViolations vs) \<rparr>"
  have "statusCode ?err = 400" "code ?err = Some ''VALIDATION_FAILED''"
    "details ?err = Some (DViolations vs)"
    by (simp_all add: createError_def)
  with 1 2 show "\<exists>vs err. Register lib now oid store b = (NextErr err, store) \<and>
         statusCode err = 400 \<and> code err = Some ''VALIDATION_FAILED'' \<and>
         details err = Some (DViolations vs) \<and> set vs = {v. violates lib b v}"
    by blast
next
  fix em u
  assume a: "(\<forall>v. \<not> violates lib b v) \<and> body_email b = Some em \<and> findOne store em = Some u"
  then have v: "\<forall>v. \<not> violates lib b v" by blast
  from validated_fields [OF v] a obtain nm pw rl where
    f: "body_name b = Some nm" "body_email b = Some em" "body_password b = Some pw"
       "body_role b = Some rl"
    by auto
  let ?err = "createError ''User already exists'' 400
                \<lparr> opt_code = Some ''USER_EXISTS'', opt_details = Some (DEmail em) \<rparr>"
  from Register_validated [OF v f, of now oid store] a
  have "Register lib now oid store b = (NextErr ?err, store)" by simp
  moreover have "statusCode ?err = 400" "code ?err = Some ''USER_EXISTS''"
    by (simp_all add: createError_def)
  ultimately show "\<exists>err. Register lib now oid store b = (NextErr err, store) \<and>
         statusCode err = 400 \<and> code err = Some ''USER_EXISTS''"
    by blast
next
  fix r store'
  assume "Register lib now oid store b = (Responded r, store')"
  from Register_responded [OF this]
  show "\<exists>nm em pw rl. body_name b = Some nm \<and> body_email b = Some em \<and>
         body_password b = Some pw \<and> body_role b = Some rl \<and>
         http_status r = 201 \<and>
         json r = Some \<lparr> success = True, body_status = ''success'',
                         body_message = ''User registered successfully'',
                         body_code = None, body_details = None,
                         body_data = RegisterData oid nm em \<rparr> \<and>
         set_cookies r = [] \<and> redirect r = None \<and>
         store' = store @ [\<lparr> uid = oid, name = nm, email = em,
                             password = Some (bcrypt_hash lib pw 10), google = False,
                             role = Some rl, createdAt = now \<rparr>]"
    by (auto simp: sendSuccess_def)
qed

lemma ann_body_valid:
  "\<not> violates ref_libs
      \<lparr> body_name = Some ''Ann'', body_email = Some ''ann@x.com'',
        body_password = Some ''Passw0rd!'', body_role = Some rl \<rparr> v \<or>
   rl \<notin> set [''patient'', ''doctor'', ''staff'', ''admin'']"
proof -
  let ?b = "\<lparr> body_name = Some ''Ann'', body_email = Some ''ann@x.com'',
               body_password = Some ''Passw0rd!'', body_role = Some rl \<rparr>"
  have p: "password_pattern ''Passw0rd!''"
    by (simp add: password_pattern_def is_lower_def is_upper_def is_digit_def is_special_def)
  have "rl \<in> set [''patient'', ''doctor'', ''staff'', ''admin''] \<Longrightarrow> \<not> violates ref_libs ?b v"
    using p by (cases v; cases "fst v"; cases "snd v") (auto simp: ref_libs_def)
  then show ?thesis by blast
qed

lemma Register_ann:
  "Register ref_libs 7 ''id9'' []
     \<lparr> body_name = Some ''Ann'', body_email = Some ''ann@x.com'',
       body_password = Some ''Passw0rd!'', body_role = Some ''doctor'' \<rparr> =
   (Responded (sendSuccess 201 ''User registered successfully''
      (RegisterData ''id9'' ''Ann'' ''ann@x.com'')),
    [\<lparr> uid = ''id9'', name = ''Ann'', email = ''ann@x.com'',
       password = Some ''$2b$Passw0rd!'', google = False, role = Some ''doctor'',
       createdAt = 7 \<rparr>])"
proof -
  let ?b = "\<lparr> body_name = Some ''Ann'', body_email = Some ''ann@x.com'',
               body_password = Some ''Passw0rd!'', body_role = Some ''doctor'' \<rparr>"
  have v: "\<forall>v. \<not> violates ref_libs ?b v" using ann_body_valid [of "''doctor''"] by simp
  from Register_validated [OF v, of "''Ann''" "''ann@x.com''" "''Passw0rd!''" "''doctor''" 7 "''id9''" "[]"]
  show ?thesis by (simp add: findOne_def mongoose_validate_def ref_libs_def)
qed

theorem Register_outcomes_witness:
  "(\<exists>vs err. Register ref_libs 7 ''id9'' []
                \<lparr> body_name = Some ''Al'', body_email = Some ''x'',
                  body_password = Some ''abc'', body_role = Some ''nurse'' \<rparr> = (NextErr err, []) \<and>
      statusCode err = 400 \<and> code err = Some ''VALIDATION_FAILED'' \<and>
      details err = Some (DViolations vs) \<and>
      {(FName, StringMin), (FEmail, StringEmail), (FPassword, StringMin),
       (FPassword, StringPatternBase), (FRole, AnyOnly)} \<subseteq> set vs) \<and>
   (\<exists>err. Register ref_libs 7 ''id9''
             [\<lparr> uid = ''u1'', name = ''Ann'', email = ''ann@x.com'',
                password = Some ''$2b$Passw0rd!'', google = False, role = Some ''doctor'',
                createdAt = 0 \<rparr>]
             \<lparr> body_name = Some ''Ann'', body_email = Some ''ann@x.com'',
               body_password = Some ''Passw0rd!'', body_role = Some ''staff'' \<rparr> =
           (NextErr err,
            [\<lparr> uid = ''u1'', name = ''Ann'', email = ''ann@x.com'',
               password = Some ''$2b$Passw0rd!'', google = False, role = Some ''doctor'',
               createdAt = 0 \<rparr>]) \<and>
      statusCode err = 400 \<and> code err = Some ''USER_EXISTS'') \<and>
   (\<exists>r store'. Register ref_libs 7 ''id9'' []
                 \<lparr> body_name = Some ''Ann'', body_email = Some ''ann@x.com'',
                   body_password = Some ''Passw0rd!'', body_role = Some ''doctor'' \<rparr> =
               (Responded r, store') \<and>
      http_status r = 201 \<and>
      json r = Some \<lparr> success = True, body_status = ''success'',
                      body_message = ''User registered successfully'',
                      body_code = None, body_details = None,
                      body_data = RegisterData ''id9'' ''Ann'' ''ann@x.com'' \<rparr> \<and>
      store' = [\<lparr> uid = ''id9'', name = ''Ann'', email = ''ann@x.com'',
                  password = Some (bcrypt_hash ref_libs ''Passw0rd!'' 10), google = False,
                  role = Some ''doctor'', createdAt = 7 \<rparr>])"
proof (intro conjI)
  let ?bad = "\<lparr> body_name = Some ''Al'', body_email = Some ''x'',
                 body_password = Some ''abc'', body_role = Some ''nurse'' \<rparr>"
  have v: "violates ref_libs ?bad (FName, StringMin)" "violates ref_libs ?bad (FEmail, StringEmail)"
    "violates ref_libs ?bad (FPassword, StringMin)"
    "violates ref_libs ?bad (FPassword, StringPatternBase)"
    "violates ref_libs ?bad (FRole, AnyOnly)"
    by (simp_all add: ref_libs_def password_pattern_def)
  then have "\<exists>v. violates ref_libs ?bad v" by blast
  with Register_outcomes [of ref_libs ?bad 7 "''id9''" "[]"] v
  show "\<exists>vs err. Register ref_libs 7 ''id9'' [] ?bad = (NextErr err, []) \<and>
      statusCode err = 400 \<and> code err = Some ''VALIDATION_FAILED'' \<and>
      details err = Some (DViolations vs) \<and>
      {(FName, StringMin), (FEmail, StringEmail), (FPassword, StringMin),
       (FPassword, StringPatternBase), (FRole, AnyOnly)} \<subseteq> set vs"
    by auto
next
  let ?ann = "\<lparr> uid = ''u1'', name = ''Ann'', email = ''ann@x.com'',
                password = Some ''$2b$Passw0rd!'', google = False, role = Some ''doctor'',
                createdAt = 0 \<rparr>"
  let ?b = "\<lparr> body_name = Some ''Ann'', body_email = Some ''ann@x.com'',
               body_password = Some ''Passw0rd!'', body_role = Some ''staff'' \<rparr>"
  have v: "\<forall>v. \<not> violates ref_libs ?b v" using ann_body_valid [of "''staff''"] by simp
  have "body_email ?b = Some ''ann@x.com''" "findOne [?ann] ''ann@x.com'' = Some ?ann"
    by (simp_all add: findOne_def)
  with v Register_outcomes [of ref_libs ?b 7 "''id9''" "[?ann]"]
  show "\<exists>err. Register ref_libs 7 ''id9'' [?ann] ?b = (NextErr err, [?ann]) \<and>
      statusCode err = 400 \<and> code err = Some ''USER_EXISTS''"
    by blast
next
  let ?b = "\<lparr> body_name = Some ''Ann'', body_email = Some ''ann@x.com'',
               body_password = Some ''Passw0rd!'', body_role = Some ''doctor'' \<rparr>"
  from Register_outcomes [of ref_libs ?b 7 "''id9''" "[]"] Register_ann
  show "\<exists>r store'. Register ref_libs 7 ''id9'' [] ?b = (Responded r, store') \<and>
      http_status r = 201 \<and>
      json r = Some \<lparr> success = True, body_status = ''success'',
                      body_message = ''User registered successfully'',
                      body_code = None, body_details = None,
                      body_data = RegisterData ''id9'' ''Ann'' ''ann@x.com'' \<rparr> \<and>
      store' = [\<lparr> uid = ''id9'', name = ''Ann'', email = ''ann@x.com'',
                  password = Some (bcrypt_hash ref_libs ''Passw0rd!'' 10), google = False,
                  role = Some ''doctor'', createdAt = 7 \<rparr>]"
    by auto
qed

text \<open>
  Claim C9. A body that passes the schema with role "patient" (the schema accepts it)
  and a fresh e-mail is rejected by the model's enum on \<open>role\<close> when it is saved: the
  \<open>catch\<close> answers the 500 REGISTRATION_ERROR, not a 201 and not a 400, and the collection
  is left as it was.
\<close>

theorem Register_patient_fails_on_save:
  assumes "\<forall>v. \<not> violates lib b v"
    and "body_role b = Some ''patient''"
    and "body_email b = Some em"
    and "findOne store em = None"
  shows "joi_validate False lib registerSchema b = [] \<and>
         (\<exists>paths err. Register lib now oid store b = (NextErr err, store) \<and>
            err = registration_error (MongooseValidationError paths) \<and>
            ''role'' \<in> set paths \<and>
            statusCode err = 500 \<and> status err = ''error'' \<and>
            code err = Some ''REGISTRATION_ERROR'' \<and>
            http_status (errorHandler err) = 500)"
proof
  from assms(1) have "set (joi_validate False lib registerSchema b) = {}"
    by (simp add: joi_validate_exhaustive)
  then show "joi_validate False lib registerSchema b = []" by simp
next
  from validated_fields [OF assms(1)] assms(2,3) obtain nm pw where
    f: "body_name b = Some nm" "body_email b = Some em" "body_password b = Some pw"
       "body_role b = Some ''patient''"
    by auto
  let ?u = "\<lparr> uid = oid, name = nm, email = em, password = Some (bcrypt_hash lib pw 10),
               google = False, role = Some ''patient'', createdAt = now \<rparr>"
  have "''role'' \<in> set (mongoose_validate ?u)"
    by (rule role_rejected_by_model [of _ "''patient''"]) simp_all
  then obtain p ps where ps: "mongoose_validate ?u = p # ps" "''role'' \<in> set (p # ps)"
    by (cases "mongoose_validate ?u") auto
  let ?err = "registration_error (MongooseValidationError (p # ps))"
  from Register_validated [OF assms(1) f, of now oid store] assms(4) ps
  have "Register lib now oid store b = (NextErr ?err, store)" by simp
  moreover have "statusCode ?err = 500" "status ?err = ''error''"
    "code ?err = Some ''REGISTRATION_ERROR''" "http_status (errorHandler ?err) = 500"
    by (simp_all add: registration_error_def createError_def leading_digit_500 errorHandler_def)
  ultimately show "\<exists>paths err. Register lib now oid store b = (NextErr err, store) \<and>
            err = registration_error (MongooseValidationError paths) \<and>
            ''role'' \<in> set paths \<and>
            statusCode err = 500 \<and> status err = ''error'' \<and>
            code err = Some ''REGISTRATION_ERROR'' \<and>
            http_status (errorHandler err) = 500"
    using ps(2) by blast
qed

theorem Register_patient_fails_on_save_witness:
  "joi_validate False ref_libs registerSchema
     \<lparr> body_name = Some ''Ann'', body_email = Some ''ann@x.com'',
       body_password = Some ''Passw0rd!'', body_role = Some ''patient'' \<rparr> = [] \<and>
   (\<exists>paths err. Register ref_libs 7 ''id9'' []
        \<lparr> body_name = Some ''Ann'', body_email = Some ''ann@x.com'',
          body_password = Some ''Passw0rd!'', body_role = Some ''patient'' \<rparr> = (NextErr err, []) \<and>
      err = registration_error (MongooseValidationError paths) \<and> ''role'' \<in> set paths \<and>
      statusCode err = 500 \<and> code err = Some ''REGISTRATION_ERROR'')"
proof -
  let ?b = "\<lparr> body_name = Some ''Ann'', body_email = Some ''ann@x.com'',
               body_password = Some ''Passw0rd!'', body_role = Some ''patient'' \<rparr>"
  have v: "\<forall>v. \<not> violates ref_libs ?b v" using ann_body_valid [of "''patient''"] by simp
  have r: "body_role ?b = Some ''patient''" and e: "body_email ?b = Some ''ann@x.com''" by simp_all
  have n: "findOne [] ''ann@x.com'' = None" by (simp add: findOne_def)
  from Register_patient_fails_on_save [OF v r e n, of 7 "''id9''"]
  show ?thesis by blast
qed

end
